theory Spec2Isabelle
  imports Main "HOL-Library.Word"
begin

unbundle bit_operations_syntax

section \<open>Data model of igl::vulkan::Texture (src/src/igl/vulkan/Texture.cpp)\<close>

text \<open>
  The embedding follows Texture.cpp function by function. Sizes and counts that the
  source keeps in \<^verbatim>\<open>size_t\<close> are natural numbers; every explicit cast to
  \<^verbatim>\<open>uint32_t\<close> is written \<open>word_of_nat\<close> (reduction modulo \<open>2 ^ 32\<close>), and
  values the source holds in \<^verbatim>\<open>uint32_t\<close> or in Vulkan flag types are \<open>32 word\<close>.
  A pointer is the address it holds, \<open>0\<close> being the null pointer; host memory is a
  map from addresses to bytes. Dereferencing a null pointer, indexing a vector out of
  range and overflowing a signed counter are undefined in C++: the functions that can
  do so return \<open>None\<close> there. A member \<^verbatim>\<open>name_\<close> of the source is written
  \<open>name'\<close>, since an Isabelle name cannot end in an underscore.
\<close>

subsection \<open>Results\<close>

text \<open>
  \<^verbatim>\<open>Result::Code\<close>. Texture.cpp names \<open>Unimplemented\<close>, \<open>ArgumentOutOfRange\<close> and
  \<open>InvalidOperation\<close>, and \<^verbatim>\<open>Result()\<close> is the success value. \<open>RangeOutOfBounds\<close>
  is the spec's name (section 7) for what the range check reports; the range check is
  declared outside Texture.cpp.
\<close>

datatype Code = Ok | Unimplemented | ArgumentOutOfRange | InvalidOperation | RangeOutOfBounds

record Result =
  code :: Code
  message :: string

definition Result_Ok :: Result where
  "Result_Ok = \<lparr>code = Ok, message = []\<rparr>"

definition mkResult :: "Code \<Rightarrow> string \<Rightarrow> Result" where
  "mkResult c m = \<lparr>code = c, message = m\<rparr>"

definition isOk :: "Result \<Rightarrow> bool" where
  "isOk r = (code r = Ok)"

subsection \<open>Descriptors\<close>

text \<open>
  \<^verbatim>\<open>TextureType\<close>: create names \<open>TwoD\<close>, \<open>ThreeD\<close> and \<open>Cube\<close> and rejects every
  other enumerator (lines 35-39 and the default branch at 117-120); \<open>OtherType\<close>
  stands for those.
\<close>

datatype TextureType = TwoD | ThreeD | Cube | OtherType

datatype ResourceStorage = Private | HostVisible

type_synonym TextureFormat = nat
type_synonym VkFormat = nat
type_synonym VkFlags = "32 word"

record TextureDesc =
  type :: TextureType
  format :: TextureFormat
  width :: nat
  height :: nat
  depth :: nat
  numLayers :: nat
  numSamples :: nat
  usage :: "32 word"
  numMipLevels :: nat
  storage :: ResourceStorage
  debugName :: string

text \<open>
  Modelled from the spec: \<^verbatim>\<open>TextureDesc::TextureUsageBits\<close>, whose declaration is not in
  Texture.cpp. Section 3 gives the bit-set as \<open>{Sampled, Storage, Attachment}\<close>: three
  distinct bits, in that order.
\<close>

definition Sampled :: "32 word" where "Sampled = 1"
definition Storage :: "32 word" where "Storage = 2"
definition Attachment :: "32 word" where "Attachment = 4"

text \<open>
  Modelled from the spec: \<^verbatim>\<open>TextureDesc::calcNumMipLevels\<close>, which is not in Texture.cpp.
  Section 3 bounds the mip-level count by \<open>ceil(log2(max(width,height)))+1\<close>.
\<close>

fun ceilLog2 :: "nat \<Rightarrow> nat" where
  "ceilLog2 n = (if n \<le> 1 then 0 else Suc (ceilLog2 ((n + 1) div 2)))"

declare ceilLog2.simps [simp del]

definition calcNumMipLevels :: "nat \<Rightarrow> nat \<Rightarrow> nat" where
  "calcNumMipLevels w h = ceilLog2 (max w h) + 1"

subsection \<open>Vulkan constants and device objects\<close>

datatype VkImageType = VK_IMAGE_TYPE_1D | VK_IMAGE_TYPE_2D | VK_IMAGE_TYPE_3D

datatype VkImageViewType = VK_IMAGE_VIEW_TYPE_2D | VK_IMAGE_VIEW_TYPE_3D | VK_IMAGE_VIEW_TYPE_CUBE

datatype VkImageTiling = VK_IMAGE_TILING_OPTIMAL | VK_IMAGE_TILING_LINEAR

datatype VkExtent3D = VkExtent3D "32 word" "32 word" "32 word"

datatype VkOffset3D = VkOffset3D "32 word" "32 word" "32 word"

datatype VkRect2D = VkRect2D "32 word" "32 word" "32 word" "32 word"

definition VK_IMAGE_USAGE_TRANSFER_SRC_BIT :: VkFlags where
  "VK_IMAGE_USAGE_TRANSFER_SRC_BIT = 0x1"
definition VK_IMAGE_USAGE_TRANSFER_DST_BIT :: VkFlags where
  "VK_IMAGE_USAGE_TRANSFER_DST_BIT = 0x2"
definition VK_IMAGE_USAGE_SAMPLED_BIT :: VkFlags where
  "VK_IMAGE_USAGE_SAMPLED_BIT = 0x4"
definition VK_IMAGE_USAGE_STORAGE_BIT :: VkFlags where
  "VK_IMAGE_USAGE_STORAGE_BIT = 0x8"
definition VK_IMAGE_USAGE_COLOR_ATTACHMENT_BIT :: VkFlags where
  "VK_IMAGE_USAGE_COLOR_ATTACHMENT_BIT = 0x10"
definition VK_IMAGE_USAGE_DEPTH_STENCIL_ATTACHMENT_BIT :: VkFlags where
  "VK_IMAGE_USAGE_DEPTH_STENCIL_ATTACHMENT_BIT = 0x20"
definition VK_IMAGE_ASPECT_COLOR_BIT :: VkFlags where
  "VK_IMAGE_ASPECT_COLOR_BIT = 0x1"
definition VK_IMAGE_ASPECT_DEPTH_BIT :: VkFlags where
  "VK_IMAGE_ASPECT_DEPTH_BIT = 0x2"
definition VK_IMAGE_CREATE_CUBE_COMPATIBLE_BIT :: VkFlags where
  "VK_IMAGE_CREATE_CUBE_COMPATIBLE_BIT = 0x10"
definition VK_SAMPLE_COUNT_1_BIT :: VkFlags where
  "VK_SAMPLE_COUNT_1_BIT = 0x1"
definition VK_REMAINING_MIP_LEVELS :: "32 word" where
  "VK_REMAINING_MIP_LEVELS = NOT 0"

text \<open>
  \<^verbatim>\<open>VulkanImage\<close>: the fields Texture.cpp reads (\<^verbatim>\<open>vkImage_\<close>, \<^verbatim>\<open>type_\<close>, \<^verbatim>\<open>imageFormat_\<close>)
  and the remaining arguments of \<^verbatim>\<open>createImage\<close>, kept so that a theorem can say with
  which arguments an image was created.
\<close>

record VulkanImage =
  vkImage' :: nat
  type' :: VkImageType
  imageExtent :: VkExtent3D
  imageFormat' :: VkFormat
  imageLevels :: "32 word"
  imageLayers :: "32 word"
  imageTiling :: VkImageTiling
  imageUsageFlags :: VkFlags
  imageMemFlags :: VkFlags
  imageCreateFlags :: VkFlags
  imageSamples :: VkFlags
  imageDebugName :: string

text \<open>\<^verbatim>\<open>VulkanImageView\<close>: its handle and the arguments of \<^verbatim>\<open>createImageView\<close>.\<close>

record VulkanImageView =
  vkImageView' :: nat
  viewImage :: nat
  viewType :: VkImageViewType
  viewFormat :: VkFormat
  viewAspect :: VkFlags
  viewBaseLevel :: "32 word"
  viewNumLevels :: "32 word"
  viewBaseLayer :: "32 word"
  viewNumLayers :: "32 word"
  viewDebugName :: string

record VulkanTexture =
  getVulkanImage :: VulkanImage
  getVulkanImageView :: VulkanImageView

text \<open>
  What a staged copy reads from: the caller's memory at an address (the aligned path
  passes the caller's pointer on) or the temporary vector \<^verbatim>\<open>linearData\<close> with its
  contents at the time of the call (the unaligned path).
\<close>

datatype UploadSource = CallerData nat | LinearData "8 word list"

text \<open>
  The calls \<^verbatim>\<open>stagingDevice_->imageData2D(image, region, mipLevel, numMipLevels, layer,
  format, data)\<close> and \<^verbatim>\<open>imageData3D(image, offset, extent, format, data)\<close>, recorded with
  their arguments (the image by its handle).
\<close>

datatype Transfer =
    ImageData2D nat VkRect2D "32 word" "32 word" "32 word" VkFormat UploadSource
  | ImageData3D nat VkOffset3D VkExtent3D VkFormat UploadSource

text \<open>
  The device as Texture.cpp sees it: the images and views created so far and the staged
  copies recorded so far.
\<close>

record Device =
  images :: "VulkanImage list"
  imageViews :: "VulkanImageView list"
  transfers :: "Transfer list"

text \<open>
  The collaborators of Texture.cpp that are declared outside it, taken as parameters:
  the format translator, the byte-size helpers, the sample-count and memory-flag
  translations, and the device's answer to a request for an image or a view.
\<close>

record VulkanContext =
  isDepthOrStencilFormat :: "TextureFormat \<Rightarrow> bool"
  getClosestDepthStencilFormat :: "TextureFormat \<Rightarrow> VkFormat"
  textureFormatToVkFormat :: "TextureFormat \<Rightarrow> VkFormat"
  vkFormatToTextureFormat :: "VkFormat \<Rightarrow> TextureFormat"
  isCompressedTextureFormat :: "TextureFormat \<Rightarrow> bool"
  toBytesPerBlock :: "TextureFormat \<Rightarrow> nat"
  getBytesPerPixel :: "VkFormat \<Rightarrow> nat"
  getTextureBytesPerSlice :: "nat \<Rightarrow> nat \<Rightarrow> nat \<Rightarrow> TextureFormat \<Rightarrow> nat \<Rightarrow> nat"
  getVulkanSampleCountFlags :: "nat \<Rightarrow> VkFlags"
  resourceStorageToVkMemoryPropertyFlags :: "ResourceStorage \<Rightarrow> VkFlags"
  deviceImageResult :: "VulkanImage \<Rightarrow> Result"
  deviceImageNull :: "VulkanImage \<Rightarrow> bool"
  deviceViewNull :: "VulkanImageView \<Rightarrow> bool"

text \<open>The members of \<^verbatim>\<open>Texture\<close> that Texture.cpp reads and writes.\<close>

record Texture =
  desc' :: TextureDesc
  texture' :: "VulkanTexture option"
  imageViewForFramebuffer' :: "VulkanImageView option list"

subsection \<open>Assertion macros and device calls\<close>

text \<open>
  Modelled from the spec: the macros \<^verbatim>\<open>IGL_ASSERT_MSG\<close> and \<^verbatim>\<open>IGL_VERIFY\<close> are defined
  outside Texture.cpp. Sections 4.1 and 7 call a failed assertion a logged warning that
  is not fatal: \<open>IGL_ASSERT_MSG\<close> logs its message when the condition is false (its
  value here is the list of messages it logs), and \<open>IGL_VERIFY\<close> has the value of its
  condition. A function that can log returns the messages it logged, in order.
\<close>

definition IGL_ASSERT_MSG :: "bool \<Rightarrow> string \<Rightarrow> string list" where
  "IGL_ASSERT_MSG cond msg = (if cond then [] else [msg])"

definition IGL_VERIFY :: "bool \<Rightarrow> bool" where
  "IGL_VERIFY cond = cond"

text \<open>
  Modelled from the spec: \<^verbatim>\<open>VulkanContext::createImage\<close> (sections 4.2 and 6) is not in
  Texture.cpp. The device reports a result through the out-parameter and returns the
  image or a null pointer; an image that is returned is a new device object with a
  fresh non-null handle.
\<close>

definition createImage ::
  "VulkanContext \<Rightarrow> Device \<Rightarrow> VkImageType \<Rightarrow> VkExtent3D \<Rightarrow> VkFormat \<Rightarrow> 32 word \<Rightarrow> 32 word \<Rightarrow>
   VkImageTiling \<Rightarrow> VkFlags \<Rightarrow> VkFlags \<Rightarrow> VkFlags \<Rightarrow> VkFlags \<Rightarrow> string \<Rightarrow>
   Result \<times> VulkanImage option \<times> Device" where
  "createImage ctx dev imageType extent fmt mipLevels arrayLayers tiling usageFlags memFlags
     createFlags samples name =
   (let img = \<lparr>vkImage' = Suc (length (images dev)), type' = imageType, imageExtent = extent,
                imageFormat' = fmt, imageLevels = mipLevels, imageLayers = arrayLayers,
                imageTiling = tiling, imageUsageFlags = usageFlags, imageMemFlags = memFlags,
                imageCreateFlags = createFlags, imageSamples = samples, imageDebugName = name\<rparr>
    in if deviceImageNull ctx img then (deviceImageResult ctx img, None, dev)
       else (deviceImageResult ctx img, Some img, dev\<lparr>images := images dev @ [img]\<rparr>))"

text \<open>
  Modelled from the spec: \<^verbatim>\<open>VulkanImage::createImageView\<close> (section 4.2) is not in
  Texture.cpp. The device returns a new view with a fresh non-null handle, or a null
  pointer.
\<close>

definition createImageView ::
  "VulkanContext \<Rightarrow> Device \<Rightarrow> VulkanImage \<Rightarrow> VkImageViewType \<Rightarrow> VkFormat \<Rightarrow> VkFlags \<Rightarrow>
   32 word \<Rightarrow> 32 word \<Rightarrow> 32 word \<Rightarrow> 32 word \<Rightarrow> string \<Rightarrow> VulkanImageView option \<times> Device" where
  "createImageView ctx dev img vType fmt aspect baseLevel nLevels baseLayer nLayers name =
   (let v = \<lparr>vkImageView' = Suc (length (imageViews dev)), viewImage = vkImage' img,
              viewType = vType, viewFormat = fmt, viewAspect = aspect,
              viewBaseLevel = baseLevel, viewNumLevels = nLevels, viewBaseLayer = baseLayer,
              viewNumLayers = nLayers, viewDebugName = name\<rparr>
    in if deviceViewNull ctx v then (None, dev)
       else (Some v, dev\<lparr>imageViews := imageViews dev @ [v]\<rparr>))"

section \<open>Texture::create (lines 25-164)\<close>

text \<open>Lines 68-85: the device usage flags derived from storage class, usage bits and format.\<close>

definition create_usageFlags :: "VulkanContext \<Rightarrow> TextureDesc \<Rightarrow> VkFlags" where
  "create_usageFlags ctx d =
   (let usageFlags = (if storage d = Private then VK_IMAGE_USAGE_TRANSFER_DST_BIT else 0);
        usageFlags = (if usage d AND Sampled \<noteq> 0
                      then usageFlags OR VK_IMAGE_USAGE_SAMPLED_BIT else usageFlags);
        usageFlags = (if usage d AND Storage \<noteq> 0
                      then usageFlags OR VK_IMAGE_USAGE_STORAGE_BIT else usageFlags);
        usageFlags = (if usage d AND Attachment \<noteq> 0
                      then usageFlags OR (if isDepthOrStencilFormat ctx (format d)
                                          then VK_IMAGE_USAGE_DEPTH_STENCIL_ATTACHMENT_BIT
                                          else VK_IMAGE_USAGE_COLOR_ATTACHMENT_BIT)
                      else usageFlags)
    in usageFlags OR VK_IMAGE_USAGE_TRANSFER_SRC_BIT)"

text \<open>
  Lines 96-120: the switch on the texture type. It yields the view type, the array layer
  count, the image type, the create flags and the sample count; \<open>samples\<close> starts as
  \<open>VK_SAMPLE_COUNT_1_BIT\<close> and only the \<open>TwoD\<close> branch assigns it. \<open>None\<close> is the
  default branch.
\<close>

definition create_switch ::
  "VulkanContext \<Rightarrow> TextureDesc \<Rightarrow>
   (VkImageViewType \<times> 32 word \<times> VkImageType \<times> VkFlags \<times> VkFlags) option" where
  "create_switch ctx d =
   (let createFlags = 0;
        arrayLayerCount = word_of_nat (numLayers d);
        samples = VK_SAMPLE_COUNT_1_BIT
    in case type d of
         TwoD \<Rightarrow> Some (VK_IMAGE_VIEW_TYPE_2D, arrayLayerCount, VK_IMAGE_TYPE_2D, createFlags,
                       getVulkanSampleCountFlags ctx (numSamples d))
       | ThreeD \<Rightarrow> Some (VK_IMAGE_VIEW_TYPE_3D, arrayLayerCount, VK_IMAGE_TYPE_3D, createFlags,
                         samples)
       | Cube \<Rightarrow> Some (VK_IMAGE_VIEW_TYPE_CUBE, arrayLayerCount * 6, VK_IMAGE_TYPE_2D,
                       VK_IMAGE_CREATE_CUBE_COMPATIBLE_BIT, samples)
       | OtherType \<Rightarrow> None)"

text \<open>Lines 68-163: usage flags, the image, its view, and the texture that holds both.\<close>

definition create_allocate ::
  "VulkanContext \<Rightarrow> Device \<Rightarrow> Texture \<Rightarrow> VkFormat \<Rightarrow> Result \<times> string list \<times> Device \<times> Texture" where
  "create_allocate ctx dev t vkFormat =
   (let d = desc' t;
        usageFlags = create_usageFlags ctx d;
        w = (if usage d AND Storage \<noteq> 0
             then IGL_ASSERT_MSG (numSamples d \<le> 1) ''Storage images cannot be multisampled''
             else [])
            @ IGL_ASSERT_MSG (usageFlags \<noteq> 0) ''Invalid usage flags'';
        memFlags = resourceStorageToVkMemoryPropertyFlags ctx (storage d);
        debugNameImage = (if debugName d \<noteq> [] then ''Image: '' @ debugName d else []);
        debugNameImageView = (if debugName d \<noteq> [] then ''Image View: '' @ debugName d else [])
    in case create_switch ctx d of
         None \<Rightarrow>
           (mkResult Unimplemented ''Unimplemented or unsupported texture type.'',
            w @ IGL_ASSERT_MSG False [], dev, t)
       | Some (imageViewType, arrayLayerCount, imageType, createFlags, samples) \<Rightarrow>
           (case createImage ctx dev imageType
                   (VkExtent3D (word_of_nat (width d)) (word_of_nat (height d))
                      (word_of_nat (depth d)))
                   vkFormat (word_of_nat (numMipLevels d)) arrayLayerCount
                   VK_IMAGE_TILING_OPTIMAL usageFlags memFlags createFlags samples
                   debugNameImage of
              (result, imagePtr, dev) \<Rightarrow>
                if \<not> IGL_VERIFY (isOk result) then (result, w, dev, t)
                else
                  (case imagePtr of
                     None \<Rightarrow> (mkResult InvalidOperation ''Cannot create VulkanImage'', w, dev, t)
                   | Some img \<Rightarrow>
                       (let aspect =
                              (if usageFlags AND VK_IMAGE_USAGE_DEPTH_STENCIL_ATTACHMENT_BIT \<noteq> 0
                               then VK_IMAGE_ASPECT_DEPTH_BIT else VK_IMAGE_ASPECT_COLOR_BIT)
                        in case createImageView ctx dev img imageViewType vkFormat aspect 0
                                  VK_REMAINING_MIP_LEVELS 0 arrayLayerCount debugNameImageView of
                             (None, dev) \<Rightarrow>
                               (mkResult InvalidOperation ''Cannot create VulkanImageView'',
                                w, dev, t)
                           | (Some imageView, dev) \<Rightarrow>
                               (Result_Ok, w, dev,
                                t\<lparr>texture' := Some \<lparr>getVulkanImage = img,
                                                      getVulkanImageView = imageView\<rparr>\<rparr>)))))"

text \<open>
  Lines 25-66 and the call of the rest. The checks at lines 46 and 52 read
  \<^verbatim>\<open>desc.numSamples\<close> from the argument and the mip-level count from the member
  \<^verbatim>\<open>desc_\<close>, which line 43 may have changed. The result is the \<^verbatim>\<open>Result\<close>, the
  messages logged, the device and the texture after the call.
\<close>

definition create ::
  "VulkanContext \<Rightarrow> Device \<Rightarrow> Texture \<Rightarrow> TextureDesc \<Rightarrow> Result \<times> string list \<times> Device \<times> Texture" where
  "create ctx dev t desc =
   (let t = t\<lparr>desc' := desc\<rparr>;
        vkFormat = (if isDepthOrStencilFormat ctx (format (desc' t))
                    then getClosestDepthStencilFormat ctx (format (desc' t))
                    else textureFormatToVkFormat ctx (format (desc' t)));
        ty = type (desc' t)
    in if \<not> IGL_VERIFY (ty = TwoD \<or> ty = Cube \<or> ty = ThreeD)
       then (mkResult Unimplemented [],
             IGL_ASSERT_MSG False ''Only 1D, 2D, 3D and Cube textures are supported'', dev, t)
       else
         (let (w1, t) =
                (if numMipLevels (desc' t) = 0
                 then (IGL_ASSERT_MSG False
                         ''The number of mip levels specified must be greater than 0'',
                       t\<lparr>desc' := (desc' t)\<lparr>numMipLevels := 1\<rparr>\<rparr>)
                 else ([], t))
          in if numSamples desc > 1 \<and> numMipLevels (desc' t) \<noteq> 1
             then (mkResult ArgumentOutOfRange
                     ''The number of mip levels for multisampled images should be 1'',
                   w1 @ IGL_ASSERT_MSG False
                          ''The number of mip levels for multisampled images should be 1'',
                   dev, t)
             else if numSamples desc > 1 \<and> ty = ThreeD
             then (mkResult ArgumentOutOfRange ''Multisampled 3D images are not supported'',
                   w1 @ IGL_ASSERT_MSG False ''Multisampled 3D images are not supported'',
                   dev, t)
             else if \<not> IGL_VERIFY (numMipLevels (desc' t)
                                     \<le> calcNumMipLevels (width (desc' t)) (height (desc' t)))
             then (mkResult ArgumentOutOfRange
                     (''The number of specified mip levels is greater than the maximum possible ''
                      @ ''number of mip levels.''),
                   w1, dev, t)
             else
               (let (w2, t) =
                      (if usage (desc' t) = 0
                       then (IGL_ASSERT_MSG False ''Texture usage flags are not set'',
                             t\<lparr>desc' := (desc' t)\<lparr>usage := Sampled\<rparr>\<rparr>)
                       else ([], t))
                in case create_allocate ctx dev t vkFormat of
                     (result, w3, dev, t) \<Rightarrow> (result, w1 @ w2 @ w3, dev, t))))"

text \<open>
  The getters (lines 271-294). The assertion in \<^verbatim>\<open>getVkFormat\<close> only logs and is left
  out; \<open>0\<close> is \<^verbatim>\<open>VK_FORMAT_UNDEFINED\<close>.
\<close>

definition getVkFormat :: "Texture \<Rightarrow> VkFormat" where
  "getVkFormat t = (case texture' t of Some tex \<Rightarrow> imageFormat' (getVulkanImage tex) | None \<Rightarrow> 0)"

definition getUsage :: "Texture \<Rightarrow> 32 word" where
  "getUsage t = usage (desc' t)"

definition getSamples :: "Texture \<Rightarrow> nat" where
  "getSamples t = numSamples (desc' t)"

definition getNumMipLevels :: "Texture \<Rightarrow> nat" where
  "getNumMipLevels t = numMipLevels (desc' t)"

section \<open>Texture::upload (lines 166-243)\<close>

text \<open>
  \<^verbatim>\<open>TextureRangeDesc\<close>, whose declaration is not in Texture.cpp. Line 191 takes
  \<^verbatim>\<open>std::max\<close> of \<^verbatim>\<open>range.numLayers\<close> and a \<^verbatim>\<open>size_t\<close>, and the other fields are cast
  to \<^verbatim>\<open>uint32_t\<close> where a narrower value is needed, so all of them are sizes.
\<close>

record TextureRangeDesc =
  range_x :: nat
  range_y :: nat
  range_z :: nat
  range_width :: nat
  range_height :: nat
  range_depth :: nat
  range_layer :: nat
  range_numLayers :: nat
  range_mipLevel :: nat
  range_numMipLevels :: nat

text \<open>
  Modelled from the spec: \<^verbatim>\<open>validateRange\<close> is a member of the base class and is not in
  Texture.cpp; both callers use only the \<^verbatim>\<open>Result\<close> of the pair it returns. Section 3,
  UploadRange: offset plus extent must not exceed the image's dimensions at the
  addressed mip level (each dimension halved per level and clamped to 1, section 4.4),
  and layer plus count must not exceed the image's layer count, times 6 for a cube. A
  range that escapes is \<open>RangeOutOfBounds\<close> (sections 4.3 and 7).
\<close>

definition validateRange :: "Texture \<Rightarrow> TextureRangeDesc \<Rightarrow> Result" where
  "validateRange t rng =
   (let texWidth = max 1 (width (desc' t) div 2 ^ range_mipLevel rng);
        texHeight = max 1 (height (desc' t) div 2 ^ range_mipLevel rng);
        texDepth = max 1 (depth (desc' t) div 2 ^ range_mipLevel rng);
        texLayers = (if type (desc' t) = Cube then 6 * numLayers (desc' t)
                     else numLayers (desc' t))
    in if range_x rng + range_width rng \<le> texWidth
          \<and> range_y rng + range_height rng \<le> texHeight
          \<and> range_z rng + range_depth rng \<le> texDepth
          \<and> range_layer rng + range_numLayers rng \<le> texLayers
       then Result_Ok
       else mkResult RangeOutOfBounds [])"

text \<open>
  Modelled from the spec: the staging device's \<^verbatim>\<open>imageData2D\<close> and \<^verbatim>\<open>imageData3D\<close> and
  the helper \<^verbatim>\<open>ivkGetRect2D\<close> are not in Texture.cpp. Section 4.3: the copy is recorded
  against the transfer command stream; here the call is appended to the device's list
  of staged copies with the arguments it was given.
\<close>

definition ivkGetRect2D :: "32 word \<Rightarrow> 32 word \<Rightarrow> 32 word \<Rightarrow> 32 word \<Rightarrow> VkRect2D" where
  "ivkGetRect2D x0 y0 w h = VkRect2D x0 y0 w h"

definition imageData2D ::
  "Device \<Rightarrow> VulkanImage \<Rightarrow> VkRect2D \<Rightarrow> 32 word \<Rightarrow> 32 word \<Rightarrow> 32 word \<Rightarrow> VkFormat \<Rightarrow>
   UploadSource \<Rightarrow> Device" where
  "imageData2D dev img region mipLevel nMipLevels layer fmt src =
   dev\<lparr>transfers := transfers dev
            @ [ImageData2D (vkImage' img) region mipLevel nMipLevels layer fmt src]\<rparr>"

definition imageData3D ::
  "Device \<Rightarrow> VulkanImage \<Rightarrow> VkOffset3D \<Rightarrow> VkExtent3D \<Rightarrow> VkFormat \<Rightarrow> UploadSource \<Rightarrow> Device" where
  "imageData3D dev img off ext fmt src =
   dev\<lparr>transfers := transfers dev @ [ImageData3D (vkImage' img) off ext fmt src]\<rparr>"

text \<open>Lines 176-185: bytes per pixel, the row width of the image, and the aligned test.\<close>

definition upload_bytesPerPixel :: "VulkanContext \<Rightarrow> Texture \<Rightarrow> nat" where
  "upload_bytesPerPixel ctx t =
   (if isCompressedTextureFormat ctx (vkFormatToTextureFormat ctx (getVkFormat t))
    then toBytesPerBlock ctx (vkFormatToTextureFormat ctx (getVkFormat t))
    else getBytesPerPixel ctx (getVkFormat t))"

definition upload_imageRowWidth :: "VulkanContext \<Rightarrow> Texture \<Rightarrow> nat" where
  "upload_imageRowWidth ctx t = width (desc' t) * upload_bytesPerPixel ctx t"

definition upload_isAligned :: "VulkanContext \<Rightarrow> Texture \<Rightarrow> nat \<Rightarrow> bool" where
  "upload_isAligned ctx t bytesPerRow =
   (isCompressedTextureFormat ctx (vkFormatToTextureFormat ctx (getVkFormat t))
    \<or> bytesPerRow = 0 \<or> upload_imageRowWidth ctx t = bytesPerRow)"

text \<open>
  Lines 196-201: the loop that adds the slice sizes of mip levels \<open>1\<close> up to
  \<open>numMipLevels - 1\<close> of the range to \<open>byteIncrement\<close>.
\<close>

function upload_mipLoop ::
  "VulkanContext \<Rightarrow> Texture \<Rightarrow> TextureRangeDesc \<Rightarrow> nat \<Rightarrow> nat \<Rightarrow> nat" where
  "upload_mipLoop ctx t rng i byteIncrement =
   (if i < range_numMipLevels rng
    then upload_mipLoop ctx t rng (i + 1)
           (byteIncrement
            + getTextureBytesPerSlice ctx (range_width rng) (range_height rng) (range_depth rng)
                (format (desc' t)) i)
    else byteIncrement)"
  by pat_completeness auto
termination
  by (relation "measure (\<lambda>(ctx, t, rng, i, b). range_numMipLevels rng - i)") auto

declare upload_mipLoop.simps [simp del]

text \<open>Lines 191-201: the layer count and the pointer advance per layer.\<close>

definition upload_byteIncrement :: "VulkanContext \<Rightarrow> Texture \<Rightarrow> TextureRangeDesc \<Rightarrow> nat" where
  "upload_byteIncrement ctx t rng =
   (let nLayers = max (range_numLayers rng) 1;
        byteIncrement =
          (if nLayers > 1
           then getTextureBytesPerSlice ctx (range_width rng) (range_height rng)
                  (range_depth rng) (format (desc' t)) 0
           else 0)
    in if range_numMipLevels rng > 1 then upload_mipLoop ctx t rng 1 byteIncrement
       else byteIncrement)"

text \<open>
  \<^verbatim>\<open>memcpy(dst + off, src, n)\<close> into a vector, reading host memory at address \<open>src\<close>.
\<close>

definition memcpy :: "8 word list \<Rightarrow> nat \<Rightarrow> (nat \<Rightarrow> 8 word) \<Rightarrow> nat \<Rightarrow> nat \<Rightarrow> 8 word list" where
  "memcpy dst off mem src n =
   take off dst @ map (\<lambda>k. mem (src + k)) [0..<n] @ drop (off + n) dst"

text \<open>Lines 207-211: the loop that copies each row of the image into \<open>linearData\<close>.\<close>

function upload_repack ::
  "(nat \<Rightarrow> 8 word) \<Rightarrow> nat \<Rightarrow> nat \<Rightarrow> nat \<Rightarrow> nat \<Rightarrow> nat \<Rightarrow> 8 word list \<Rightarrow> 8 word list" where
  "upload_repack mem data bytesPerRow imageRowWidth imageHeight h linearData =
   (if h < imageHeight
    then upload_repack mem data bytesPerRow imageRowWidth imageHeight (h + 1)
           (memcpy linearData (h * imageRowWidth) mem (data + h * bytesPerRow) imageRowWidth)
    else linearData)"
  by pat_completeness auto
termination
  by (relation "measure (\<lambda>(mem, data, bpr, rw, ht, h, lin). ht - h)") auto

declare upload_repack.simps [simp del]

text \<open>
  Lines 216-237: the copy staged for layer \<open>i\<close> from \<open>uploadData\<close>: a 3D copy when the
  image is a 3D image, else a 2D copy whose layer is \<^verbatim>\<open>(uint32_t)range.layer + i\<close>.
\<close>

definition upload_stage ::
  "Device \<Rightarrow> Texture \<Rightarrow> VulkanTexture \<Rightarrow> TextureRangeDesc \<Rightarrow> nat \<Rightarrow> UploadSource \<Rightarrow> Device" where
  "upload_stage dev t tex rng i uploadData =
   (if type' (getVulkanImage tex) = VK_IMAGE_TYPE_3D
    then imageData3D dev (getVulkanImage tex)
           (VkOffset3D (word_of_nat (range_x rng)) (word_of_nat (range_y rng))
              (word_of_nat (range_z rng)))
           (VkExtent3D (word_of_nat (range_width rng)) (word_of_nat (range_height rng))
              (word_of_nat (range_depth rng)))
           (getVkFormat t) uploadData
    else imageData2D dev (getVulkanImage tex)
           (ivkGetRect2D (word_of_nat (range_x rng)) (word_of_nat (range_y rng))
              (word_of_nat (range_width rng)) (word_of_nat (range_height rng)))
           (word_of_nat (range_mipLevel rng)) (word_of_nat (range_numMipLevels rng))
           (word_of_nat (range_layer rng) + word_of_nat i)
           (getVkFormat t) uploadData)"

text \<open>
  Lines 203-240: the loop over the layers. \<open>data\<close> is the pointer as advanced so far and
  \<open>linearData\<close> the temporary vector, which all layers share.
\<close>

function upload_layerLoop ::
  "VulkanContext \<Rightarrow> (nat \<Rightarrow> 8 word) \<Rightarrow> Texture \<Rightarrow> VulkanTexture \<Rightarrow> TextureRangeDesc \<Rightarrow> nat \<Rightarrow>
   nat \<Rightarrow> nat \<Rightarrow> nat \<Rightarrow> nat \<Rightarrow> 8 word list \<Rightarrow> Device \<Rightarrow> Device" where
  "upload_layerLoop ctx mem t tex rng bytesPerRow byteIncrement nLayers i data linearData dev =
   (if i < nLayers
    then
      (let linearData =
             (if upload_isAligned ctx t bytesPerRow then linearData
              else upload_repack mem data bytesPerRow (upload_imageRowWidth ctx t)
                     (height (desc' t)) 0 linearData);
           uploadData = (if upload_isAligned ctx t bytesPerRow then CallerData data
                         else LinearData linearData);
           dev = upload_stage dev t tex rng i uploadData
       in upload_layerLoop ctx mem t tex rng bytesPerRow byteIncrement nLayers (i + 1)
            (data + byteIncrement) linearData dev)
    else dev)"
  by pat_completeness auto
termination
  by (relation "measure (\<lambda>(ctx, mem, t, tex, rng, bpr, inc, n, i, data, lin, dev). n - i)") auto

declare upload_layerLoop.simps [simp del]

definition INT_MAX :: nat where
  "INT_MAX = 2147483647"

text \<open>
  The whole of upload. The counters of the loops at lines 197 and 203 are \<^verbatim>\<open>int\<close> and
  are compared with a \<^verbatim>\<open>size_t\<close>: a bound above \<open>INT_MAX\<close> overflows the counter. The
  counter of the loop at line 207 is a \<^verbatim>\<open>uint32_t\<close>, which never reaches a height of
  \<open>2 ^ 32\<close> or more. The loop at line 203 runs at least once and dereferences
  \<^verbatim>\<open>texture_\<close>. In these cases upload has no result.
\<close>

definition upload ::
  "VulkanContext \<Rightarrow> (nat \<Rightarrow> 8 word) \<Rightarrow> Device \<Rightarrow> Texture \<Rightarrow> TextureRangeDesc \<Rightarrow> nat \<Rightarrow> nat \<Rightarrow>
   (Result \<times> Device) option" where
  "upload ctx mem dev t rng data bytesPerRow =
   (if data = 0 then Some (Result_Ok, dev)
    else
      (let result = validateRange t rng
       in if \<not> isOk result then Some (result, dev)
          else
            (let isAligned = upload_isAligned ctx t bytesPerRow;
                 linearData = (if \<not> isAligned
                               then replicate (upload_imageRowWidth ctx t * height (desc' t)) 0
                               else []);
                 nLayers = max (range_numLayers rng) 1;
                 byteIncrement = upload_byteIncrement ctx t rng
             in case texture' t of
                  None \<Rightarrow> None
                | Some tex \<Rightarrow>
                    if INT_MAX < nLayers
                       \<or> (1 < range_numMipLevels rng \<and> INT_MAX < range_numMipLevels rng)
                       \<or> (\<not> isAligned \<and> 2 ^ 32 \<le> height (desc' t))
                    then None
                    else Some (Result_Ok,
                               upload_layerLoop ctx mem t tex rng bytesPerRow byteIncrement
                                 nLayers 0 data linearData dev))))"

section \<open>Texture::uploadCube (lines 245-265)\<close>

text \<open>
  Modelled from the spec: the enumeration \<^verbatim>\<open>TextureCubeFace\<close> is declared outside
  Texture.cpp. Sections 4.3 and 8 name its faces \<open>PosX\<close> to \<open>NegZ\<close> and use the ordinal
  of a face as its layer index; the enumerators are taken in the order +X, -X, +Y, -Y,
  +Z, -Z with consecutive values.
\<close>

datatype TextureCubeFace = PosX | NegX | PosY | NegY | PosZ | NegZ

primrec TextureCubeFace_value :: "TextureCubeFace \<Rightarrow> 32 word" where
  "TextureCubeFace_value PosX = 0"
| "TextureCubeFace_value NegX = 1"
| "TextureCubeFace_value PosY = 2"
| "TextureCubeFace_value NegY = 3"
| "TextureCubeFace_value PosZ = 4"
| "TextureCubeFace_value NegZ = 5"

text \<open>
  uploadCube validates the range and stages one 2D copy whose layer is
  \<^verbatim>\<open>(uint32_t)face - (uint32_t)TextureCubeFace::PosX\<close>. It does not test \<open>data\<close>, and
  it does not read \<open>bytesPerRow\<close>. It dereferences \<^verbatim>\<open>texture_\<close>.
\<close>

definition uploadCube ::
  "Device \<Rightarrow> Texture \<Rightarrow> TextureRangeDesc \<Rightarrow> TextureCubeFace \<Rightarrow> nat \<Rightarrow> nat \<Rightarrow>
   (Result \<times> Device) option" where
  "uploadCube dev t rng face data bytesPerRow =
   (let result = validateRange t rng
    in if \<not> isOk result then Some (result, dev)
       else
         (case texture' t of
            None \<Rightarrow> None
          | Some tex \<Rightarrow>
              (let imageRegion =
                     ivkGetRect2D (word_of_nat (range_x rng)) (word_of_nat (range_y rng))
                       (word_of_nat (range_width rng)) (word_of_nat (range_height rng))
               in Some (Result_Ok,
                        imageData2D dev (getVulkanImage tex) imageRegion
                          (word_of_nat (range_mipLevel rng))
                          (word_of_nat (range_numMipLevels rng))
                          (TextureCubeFace_value face - TextureCubeFace_value PosX)
                          (getVkFormat t) (CallerData data)))))"

section \<open>Texture::getVkImageViewForFramebuffer (lines 315-330)\<close>

text \<open>
  Modelled from the spec: \<^verbatim>\<open>VulkanImage::getImageAspectFlags\<close> is not in Texture.cpp.
  Section 4.5 gives the attachment view the same aspect as the resource's primary view;
  create (line 144) chooses that aspect from the image's usage flags.
\<close>

definition getImageAspectFlags :: "VulkanImage \<Rightarrow> VkFlags" where
  "getImageAspectFlags img =
   (if imageUsageFlags img AND VK_IMAGE_USAGE_DEPTH_STENCIL_ATTACHMENT_BIT \<noteq> 0
    then VK_IMAGE_ASPECT_DEPTH_BIT else VK_IMAGE_ASPECT_COLOR_BIT)"

text \<open>\<^verbatim>\<open>std::vector::resize\<close> on the vector of cached views: new entries are null.\<close>

definition resize :: "'a option list \<Rightarrow> nat \<Rightarrow> 'a option list" where
  "resize xs n = take n xs @ replicate (n - length xs) None"

text \<open>
  The result is the handle returned, the device and the texture after the call. At
  line 321 \<^verbatim>\<open>level + 1\<close> is computed in \<^verbatim>\<open>uint32_t\<close>. There is no result where the
  source dereferences a null \<^verbatim>\<open>texture_\<close> (line 324), indexes the vector out of range
  (line 326) or dereferences a null view (line 329).
\<close>

definition getVkImageViewForFramebuffer ::
  "VulkanContext \<Rightarrow> Device \<Rightarrow> Texture \<Rightarrow> 32 word \<Rightarrow> (nat \<times> Device \<times> Texture) option" where
  "getVkImageViewForFramebuffer ctx dev t level =
   (case (if unat level < length (imageViewForFramebuffer' t)
          then imageViewForFramebuffer' t ! unat level else None) of
      Some view \<Rightarrow> Some (vkImageView' view, dev, t)
    | None \<Rightarrow>
        (let cache = (if unat level \<ge> length (imageViewForFramebuffer' t)
                      then resize (imageViewForFramebuffer' t) (unat (level + 1))
                      else imageViewForFramebuffer' t)
         in case texture' t of
              None \<Rightarrow> None
            | Some tex \<Rightarrow>
                (let flags = getImageAspectFlags (getVulkanImage tex)
                 in case createImageView ctx dev (getVulkanImage tex) VK_IMAGE_VIEW_TYPE_2D
                           (textureFormatToVkFormat ctx (format (desc' t))) flags level 1 0 1 [] of
                      (view, dev) \<Rightarrow>
                        if unat level < length cache
                        then (case view of
                                None \<Rightarrow> None
                              | Some v \<Rightarrow>
                                  Some (vkImageView' v, dev,
                                        t\<lparr>imageViewForFramebuffer' := cache[unat level := view]\<rparr>))
                        else None)))"

section \<open>What a staged copy reads\<close>

text \<open>
  The rows of an image read from host memory at a row stride and laid end to end:
  \<open>rows\<close> rows of \<open>rowWidth\<close> bytes, row \<open>h\<close> starting at \<open>data + h * bytesPerRow\<close>.
  This is what \<open>linearData\<close> holds after the loop at lines 207-211 (lemma
  \<open>upload_repack_full\<close>).
\<close>

definition tightRows :: "(nat \<Rightarrow> 8 word) \<Rightarrow> nat \<Rightarrow> nat \<Rightarrow> nat \<Rightarrow> nat \<Rightarrow> 8 word list" where
  "tightRows mem data bytesPerRow rowWidth rows =
   concat (map (\<lambda>h. map (\<lambda>k. mem (data + h * bytesPerRow + k)) [0..<rowWidth]) [0..<rows])"

text \<open>
  The call that lines 220-237 make for layer \<open>i\<close>, as the staging device records it
  (lemma \<open>upload_stage_copy\<close>).
\<close>

definition upload_copy ::
  "Texture \<Rightarrow> VulkanTexture \<Rightarrow> TextureRangeDesc \<Rightarrow> nat \<Rightarrow> UploadSource \<Rightarrow> Transfer" where
  "upload_copy t tex rng i uploadData =
   (if type' (getVulkanImage tex) = VK_IMAGE_TYPE_3D
    then ImageData3D (vkImage' (getVulkanImage tex))
           (VkOffset3D (word_of_nat (range_x rng)) (word_of_nat (range_y rng))
              (word_of_nat (range_z rng)))
           (VkExtent3D (word_of_nat (range_width rng)) (word_of_nat (range_height rng))
              (word_of_nat (range_depth rng)))
           (getVkFormat t) uploadData
    else ImageData2D (vkImage' (getVulkanImage tex))
           (VkRect2D (word_of_nat (range_x rng)) (word_of_nat (range_y rng))
              (word_of_nat (range_width rng)) (word_of_nat (range_height rng)))
           (word_of_nat (range_mipLevel rng)) (word_of_nat (range_numMipLevels rng))
           (word_of_nat (range_layer rng) + word_of_nat i)
           (getVkFormat t) uploadData)"

text \<open>
  The value of \<open>uploadData\<close> at lines 204-214 when the pointer has been advanced to
  \<open>p\<close>: the pointer itself on the aligned path, the repacked rows on the other.
\<close>

definition upload_source ::
  "VulkanContext \<Rightarrow> (nat \<Rightarrow> 8 word) \<Rightarrow> Texture \<Rightarrow> nat \<Rightarrow> nat \<Rightarrow> UploadSource" where
  "upload_source ctx mem t bytesPerRow p =
   (if upload_isAligned ctx t bytesPerRow then CallerData p
    else LinearData (tightRows mem p bytesPerRow (upload_imageRowWidth ctx t) (height (desc' t))))"


section \<open>Sample inputs\<close>

text \<open>
  Concrete inputs on which the theorems below are evaluated: a context in which every
  format is an uncompressed four-byte colour format and the device grants every
  request, a device with no objects, the descriptor of the first texture of
  samples/Tiny_Mesh.cpp (lines 213-222, the fields it leaves out set to one image of one
  layer, one sample and one mip level), and a texture on which create has not run. Then
  the texture and device that create makes from that descriptor (lemma
  \<open>create_xorPattern\<close>), its full range, the same for a cube and for a texture one
  pixel wide and two high, the sample texture with a view cached for level 0, and a
  memory that holds the two rows of the small texture packed at address 16 and padded
  to a stride of 8 at address 32. Last, the small texture with two layers and two mip
  levels, a range of its two layers, a range of one layer with a mip span of 2, and a
  memory that holds the bytes 1 to 16 packed at address 16 and, as two layers of two
  rows padded to a stride of 8, at address 64 (rows at 64, 72, 80 and 88).
\<close>

definition BGRA_UN8 :: TextureFormat where "BGRA_UN8 = 1"

definition sampleContext :: VulkanContext where
  "sampleContext =
   \<lparr>isDepthOrStencilFormat = (\<lambda>f. False),
    getClosestDepthStencilFormat = (\<lambda>f. f),
    textureFormatToVkFormat = (\<lambda>f. f),
    vkFormatToTextureFormat = (\<lambda>f. f),
    isCompressedTextureFormat = (\<lambda>f. False),
    toBytesPerBlock = (\<lambda>f. 0),
    getBytesPerPixel = (\<lambda>f. 4),
    getTextureBytesPerSlice =
      (\<lambda>w h d f m. max 1 (w div 2 ^ m) * max 1 (h div 2 ^ m) * max 1 (d div 2 ^ m) * 4),
    getVulkanSampleCountFlags = (\<lambda>n. word_of_nat n),
    resourceStorageToVkMemoryPropertyFlags = (\<lambda>s. if s = Private then 1 else 6),
    deviceImageResult = (\<lambda>img. Result_Ok),
    deviceImageNull = (\<lambda>img. False),
    deviceViewNull = (\<lambda>v. False)\<rparr>"

definition emptyDevice :: Device where
  "emptyDevice = \<lparr>images = [], imageViews = [], transfers = []\<rparr>"

definition xorPatternDesc :: TextureDesc where
  "xorPatternDesc =
   \<lparr>type = TwoD, format = BGRA_UN8, width = 256, height = 256, depth = 1, numLayers = 1,
    numSamples = 1, usage = Sampled, numMipLevels = 1, storage = Private,
    debugName = ''XOR pattern''\<rparr>"

definition newTexture :: Texture where
  "newTexture = \<lparr>desc' = xorPatternDesc\<lparr>width := 1, height := 1, debugName := []\<rparr>,
                 texture' = None, imageViewForFramebuffer' = []\<rparr>"

definition xorPatternImage :: VulkanImage where
  "xorPatternImage =
   \<lparr>vkImage' = 1, type' = VK_IMAGE_TYPE_2D, imageExtent = VkExtent3D 256 256 1,
    imageFormat' = BGRA_UN8, imageLevels = 1, imageLayers = 1,
    imageTiling = VK_IMAGE_TILING_OPTIMAL, imageUsageFlags = 7, imageMemFlags = 1,
    imageCreateFlags = 0, imageSamples = 1, imageDebugName = ''Image: XOR pattern''\<rparr>"

definition xorPatternView :: VulkanImageView where
  "xorPatternView =
   \<lparr>vkImageView' = 1, viewImage = 1, viewType = VK_IMAGE_VIEW_TYPE_2D, viewFormat = BGRA_UN8,
    viewAspect = 1, viewBaseLevel = 0, viewNumLevels = NOT 0, viewBaseLayer = 0,
    viewNumLayers = 1, viewDebugName = ''Image View: XOR pattern''\<rparr>"

definition xorPatternTexture :: Texture where
  "xorPatternTexture =
   \<lparr>desc' = xorPatternDesc,
    texture' = Some \<lparr>getVulkanImage = xorPatternImage, getVulkanImageView = xorPatternView\<rparr>,
    imageViewForFramebuffer' = []\<rparr>"

definition xorPatternDevice :: Device where
  "xorPatternDevice = \<lparr>images = [xorPatternImage], imageViews = [xorPatternView], transfers = []\<rparr>"

definition fullRange :: TextureRangeDesc where
  "fullRange = \<lparr>range_x = 0, range_y = 0, range_z = 0, range_width = 256, range_height = 256,
                 range_depth = 1, range_layer = 0, range_numLayers = 1, range_mipLevel = 0,
                 range_numMipLevels = 1\<rparr>"

definition cubeDesc :: TextureDesc where
  "cubeDesc = xorPatternDesc\<lparr>type := Cube, debugName := ''Cube''\<rparr>"

definition cubeImage :: VulkanImage where
  "cubeImage =
   \<lparr>vkImage' = 1, type' = VK_IMAGE_TYPE_2D, imageExtent = VkExtent3D 256 256 1,
    imageFormat' = BGRA_UN8, imageLevels = 1, imageLayers = 6,
    imageTiling = VK_IMAGE_TILING_OPTIMAL, imageUsageFlags = 7, imageMemFlags = 1,
    imageCreateFlags = 16, imageSamples = 1, imageDebugName = ''Image: Cube''\<rparr>"

definition cubeView :: VulkanImageView where
  "cubeView =
   \<lparr>vkImageView' = 1, viewImage = 1, viewType = VK_IMAGE_VIEW_TYPE_CUBE, viewFormat = BGRA_UN8,
    viewAspect = 1, viewBaseLevel = 0, viewNumLevels = NOT 0, viewBaseLayer = 0,
    viewNumLayers = 6, viewDebugName = ''Image View: Cube''\<rparr>"

definition cubeTexture :: Texture where
  "cubeTexture =
   \<lparr>desc' = cubeDesc,
    texture' = Some \<lparr>getVulkanImage = cubeImage, getVulkanImageView = cubeView\<rparr>,
    imageViewForFramebuffer' = []\<rparr>"

definition cubeDevice :: Device where
  "cubeDevice = \<lparr>images = [cubeImage], imageViews = [cubeView], transfers = []\<rparr>"

definition level0View :: VulkanImageView where
  "level0View =
   \<lparr>vkImageView' = 2, viewImage = 1, viewType = VK_IMAGE_VIEW_TYPE_2D, viewFormat = BGRA_UN8,
    viewAspect = 1, viewBaseLevel = 0, viewNumLevels = 1, viewBaseLayer = 0,
    viewNumLayers = 1, viewDebugName = []\<rparr>"

definition cachedTexture :: Texture where
  "cachedTexture = xorPatternTexture\<lparr>imageViewForFramebuffer' := [Some level0View]\<rparr>"

definition cachedDevice :: Device where
  "cachedDevice = xorPatternDevice\<lparr>imageViews := [xorPatternView, level0View]\<rparr>"

definition tinyDesc :: TextureDesc where
  "tinyDesc = xorPatternDesc\<lparr>width := 1, height := 2, debugName := ''tiny''\<rparr>"

definition tinyImage :: VulkanImage where
  "tinyImage =
   \<lparr>vkImage' = 1, type' = VK_IMAGE_TYPE_2D, imageExtent = VkExtent3D 1 2 1,
    imageFormat' = BGRA_UN8, imageLevels = 1, imageLayers = 1,
    imageTiling = VK_IMAGE_TILING_OPTIMAL, imageUsageFlags = 7, imageMemFlags = 1,
    imageCreateFlags = 0, imageSamples = 1, imageDebugName = ''Image: tiny''\<rparr>"

definition tinyView :: VulkanImageView where
  "tinyView =
   \<lparr>vkImageView' = 1, viewImage = 1, viewType = VK_IMAGE_VIEW_TYPE_2D, viewFormat = BGRA_UN8,
    viewAspect = 1, viewBaseLevel = 0, viewNumLevels = NOT 0, viewBaseLayer = 0,
    viewNumLayers = 1, viewDebugName = ''Image View: tiny''\<rparr>"

definition tinyTexture :: Texture where
  "tinyTexture =
   \<lparr>desc' = tinyDesc,
    texture' = Some \<lparr>getVulkanImage = tinyImage, getVulkanImageView = tinyView\<rparr>,
    imageViewForFramebuffer' = []\<rparr>"

definition tinyDevice :: Device where
  "tinyDevice = \<lparr>images = [tinyImage], imageViews = [tinyView], transfers = []\<rparr>"











section \<open>Facts about the device calls and the allocation stage\<close>

lemma createImage_None:
  "createImage ctx dev it ex f lv la ti us mf cf sm nm = (r, None, dev') \<Longrightarrow> dev' = dev"
  by (simp add: createImage_def Let_def split: if_splits)

lemma createImage_Some:
  "createImage ctx dev it ex f lv la ti us mf cf sm nm = (r, Some img, dev') \<Longrightarrow>
   dev' = dev\<lparr>images := images dev @ [img]\<rparr> \<and> imageSamples img = sm \<and> type' img = it
   \<and> imageLayers img = la \<and> imageLevels img = lv \<and> imageFormat' img = f
   \<and> imageUsageFlags img = us \<and> vkImage' img = Suc (length (images dev))
   \<and> r = deviceImageResult ctx img \<and> \<not> deviceImageNull ctx img"
  by (auto simp add: createImage_def Let_def split: if_splits)

lemma createImageView_None:
  "createImageView ctx dev img vt f a bl nl bly nly nm = (None, dev') \<Longrightarrow> dev' = dev"
  by (simp add: createImageView_def Let_def split: if_splits)

lemma createImageView_Some:
  "createImageView ctx dev img vt f a bl nl bly nly nm = (Some v, dev') \<Longrightarrow>
   dev' = dev\<lparr>imageViews := imageViews dev @ [v]\<rparr> \<and> viewAspect v = a \<and> viewType v = vt
   \<and> viewBaseLevel v = bl \<and> viewNumLevels v = nl \<and> viewBaseLayer v = bly
   \<and> viewNumLayers v = nly \<and> viewImage v = vkImage' img \<and> viewFormat v = f
   \<and> vkImageView' v = Suc (length (imageViews dev)) \<and> \<not> deviceViewNull ctx v"
  by (auto simp add: createImageView_def Let_def split: if_splits)

lemma create_allocate_ok:
  assumes "create_allocate ctx dev t f = (r, w, dev', t')" and "isOk r"
  shows "\<exists>vt la it cf sm img v. create_switch ctx (desc' t) = Some (vt, la, it, cf, sm)
     \<and> t' = t\<lparr>texture' := Some \<lparr>getVulkanImage = img, getVulkanImageView = v\<rparr>\<rparr>
     \<and> imageSamples img = sm \<and> type' img = it \<and> imageLayers img = la
     \<and> imageLevels img = word_of_nat (numMipLevels (desc' t))
     \<and> imageUsageFlags img = create_usageFlags ctx (desc' t)
     \<and> imageFormat' img = f
     \<and> viewAspect v = (if create_usageFlags ctx (desc' t) AND VK_IMAGE_USAGE_DEPTH_STENCIL_ATTACHMENT_BIT \<noteq> 0
                               then VK_IMAGE_ASPECT_DEPTH_BIT else VK_IMAGE_ASPECT_COLOR_BIT)
     \<and> images dev' = images dev @ [img]"
  using assms
  by (auto simp: create_allocate_def Let_def isOk_def mkResult_def IGL_VERIFY_def
      split: option.splits prod.splits if_splits
      dest!: createImage_Some createImage_None createImageView_Some createImageView_None)

lemma calcNumMipLevels_256: "calcNumMipLevels 256 256 = 9"
  by code_simp

section \<open>Properties of Texture::create\<close>

text \<open>
  C2 (as amended). For every descriptor with \<open>numSamples > 1\<close> and one of the three
  supported types, create fails with \<open>ArgumentOutOfRange\<close> whenever the mip-level count
  is greater than 1 or the type is \<open>ThreeD\<close>; the device is left as it was (no image,
  no view) and the texture holds no image afterwards unless it held one before.
\<close>

theorem create_multisample_rejected:
  assumes "1 < numSamples desc"
    and "type desc = TwoD \<or> type desc = Cube \<or> type desc = ThreeD"
    and "1 < numMipLevels desc \<or> type desc = ThreeD"
  shows "\<exists>r w t'. create ctx dev t desc = (r, w, dev, t') \<and> code r = ArgumentOutOfRange
           \<and> texture' t' = texture' t"
  using assms
  by (auto simp add: create_def Let_def IGL_VERIFY_def mkResult_def)

text \<open>The theorem at a two-level, four-sample version of the sample descriptor.\<close>

theorem create_multisample_rejected_witness:
  "1 < numSamples (xorPatternDesc\<lparr>numSamples := 4, numMipLevels := 2\<rparr>)
   \<and> (\<exists>r w t'. create sampleContext emptyDevice newTexture
                   (xorPatternDesc\<lparr>numSamples := 4, numMipLevels := 2\<rparr>)
                 = (r, w, emptyDevice, t')
               \<and> code r = ArgumentOutOfRange \<and> texture' t' = texture' newTexture)"
  using create_multisample_rejected
          [of "xorPatternDesc\<lparr>numSamples := 4, numMipLevels := 2\<rparr>"
              sampleContext emptyDevice newTexture]
  by (simp add: xorPatternDesc_def)

text \<open>
  C2 as stated fails where the mip-level count is 0: line 43 has set it to 1 before line
  46 reads it, so a four-sample \<open>TwoD\<close> descriptor with \<open>numMipLevels = 0\<close> (which is
  not 1) is accepted and its image is created. It also fails for a type that is none of
  the three supported ones: lines 35-39 return \<open>Unimplemented\<close> before the sample count
  is looked at.
\<close>

theorem create_multisample_counterexample:
  "1 < numSamples (xorPatternDesc\<lparr>numSamples := 4, numMipLevels := 0\<rparr>)
   \<and> numMipLevels (xorPatternDesc\<lparr>numSamples := 4, numMipLevels := 0\<rparr>) \<noteq> 1
   \<and> code (fst (create sampleContext emptyDevice newTexture
                   (xorPatternDesc\<lparr>numSamples := 4, numMipLevels := 0\<rparr>))) = Ok
   \<and> length (images (fst (snd (snd (create sampleContext emptyDevice newTexture
                   (xorPatternDesc\<lparr>numSamples := 4, numMipLevels := 0\<rparr>)))))) = 1
   \<and> code (fst (create sampleContext emptyDevice newTexture
                   (xorPatternDesc\<lparr>type := OtherType, numSamples := 4, numMipLevels := 2\<rparr>)))
       = Unimplemented"
  by (simp add: create_def create_allocate_def create_switch_def createImage_def
      createImageView_def Let_def IGL_VERIFY_def isOk_def Result_Ok_def mkResult_def
      xorPatternDesc_def sampleContext_def emptyDevice_def newTexture_def
      calcNumMipLevels_256)

lemma create_normalized:
  "fst (create ctx dev t desc) =
   fst (create ctx dev t (desc\<lparr>numMipLevels := (if numMipLevels desc = 0 then 1 else numMipLevels desc),
                                usage := (if usage desc = 0 then Sampled else usage desc)\<rparr>))"
proof (cases "numMipLevels desc = 0")
  case m0: True
  show ?thesis
  proof (cases "usage desc = 0")
    case True
    with m0 show ?thesis
      by (simp add: create_def Let_def IGL_VERIFY_def Sampled_def case_prod_beta)
  next
    case False
    with m0 show ?thesis
      by (simp add: create_def Let_def IGL_VERIFY_def Sampled_def case_prod_beta)
  qed
next
  case m1: False
  show ?thesis
  proof (cases "usage desc = 0")
    case True
    with m1 show ?thesis
      by (simp add: create_def Let_def IGL_VERIFY_def Sampled_def case_prod_beta)
  next
    case False
    with m1 show ?thesis
      by (simp add: create_def Let_def IGL_VERIFY_def Sampled_def case_prod_beta)
  qed
qed

text \<open>A successful create ran the allocation stage on the corrected descriptor.\<close>

lemma create_ok:
  assumes "create ctx dev t desc = (r, w, dev', t')" and "isOk r"
  shows "\<exists>w3. create_allocate ctx dev
            (t\<lparr>desc' := desc\<lparr>numMipLevels := (if numMipLevels desc = 0 then 1 else numMipLevels desc),
                               usage := (if usage desc = 0 then Sampled else usage desc)\<rparr>\<rparr>)
            (if isDepthOrStencilFormat ctx (format desc)
             then getClosestDepthStencilFormat ctx (format desc)
             else textureFormatToVkFormat ctx (format desc)) = (r, w3, dev', t')
         \<and> (type desc = TwoD \<or> type desc = Cube \<or> type desc = ThreeD)
         \<and> \<not> (1 < numSamples desc \<and> 1 < numMipLevels desc)
         \<and> \<not> (1 < numSamples desc \<and> type desc = ThreeD)"
proof -
  have ty: "type desc = TwoD \<or> type desc = Cube \<or> type desc = ThreeD"
    using assms by (cases "type desc") (auto simp: create_def Let_def IGL_VERIFY_def isOk_def mkResult_def)
  show ?thesis
  proof (cases "numMipLevels desc = 0")
    case m0: True
    show ?thesis
    proof (cases "usage desc = 0")
      case True
      with m0 ty assms show ?thesis
        by (auto simp add: create_def Let_def IGL_VERIFY_def isOk_def mkResult_def
            split: if_splits prod.splits)
    next
      case False
      with m0 ty assms show ?thesis
        by (auto simp add: create_def Let_def IGL_VERIFY_def isOk_def mkResult_def
            split: if_splits prod.splits)
    qed
  next
    case m1: False
    show ?thesis
    proof (cases "usage desc = 0")
      case True
      with m1 ty assms show ?thesis
        by (auto simp add: create_def Let_def IGL_VERIFY_def isOk_def mkResult_def
            split: if_splits prod.splits)
    next
      case False
      with m1 ty assms show ?thesis
        by (auto simp add: create_def Let_def IGL_VERIFY_def isOk_def mkResult_def
            split: if_splits prod.splits)
    qed
  qed
qed

lemma create_allocate_desc:
  "create_allocate ctx dev t f = (r, w, dev', t') \<Longrightarrow> desc' t' = desc' t"
  by (auto simp: create_allocate_def Let_def split: option.splits prod.splits if_splits)

lemma create_result_normalized:
  assumes "create ctx dev t desc = (r, w, dev', t')"
  shows "r = fst (create ctx dev t
                   (desc\<lparr>numMipLevels := (if numMipLevels desc = 0 then 1 else numMipLevels desc),
                         usage := (if usage desc = 0 then Sampled else usage desc)\<rparr>))"
  by (metis create_normalized assms fst_conv)

lemma create_ok_imageLevels:
  assumes "create ctx dev t desc = (r, w, dev', t')" and ok: "isOk r"
  shows "\<exists>tex. texture' t' = Some tex
                  \<and> imageLevels (getVulkanImage tex)
                      = word_of_nat (if numMipLevels desc = 0 then 1 else numMipLevels desc)"
proof -
  from create_ok [OF assms] obtain w3 where
    al: "create_allocate ctx dev
            (t\<lparr>desc' := desc\<lparr>numMipLevels := (if numMipLevels desc = 0 then 1 else numMipLevels desc),
                               usage := (if usage desc = 0 then Sampled else usage desc)\<rparr>\<rparr>)
            (if isDepthOrStencilFormat ctx (format desc)
             then getClosestDepthStencilFormat ctx (format desc)
             else textureFormatToVkFormat ctx (format desc)) = (r, w3, dev', t')"
    by blast
  from create_allocate_ok [OF al ok] obtain img v where
    "t' = t\<lparr>desc' := desc\<lparr>numMipLevels := (if numMipLevels desc = 0 then 1 else numMipLevels desc),
                               usage := (if usage desc = 0 then Sampled else usage desc)\<rparr>,
             texture' := Some \<lparr>getVulkanImage = img, getVulkanImageView = v\<rparr>\<rparr>"
    "imageLevels img = word_of_nat (numMipLevels (desc' (t\<lparr>desc' := desc\<lparr>numMipLevels := (if numMipLevels desc = 0 then 1 else numMipLevels desc),
                               usage := (if usage desc = 0 then Sampled else usage desc)\<rparr>\<rparr>)))"
    by blast
  then show ?thesis by simp
qed

lemma create_desc:
  assumes "create ctx dev t desc = (r, w, dev', t')"
  shows "desc' t' =
    (if \<not> (type desc = TwoD \<or> type desc = Cube \<or> type desc = ThreeD) then desc
     else if (1 < numSamples desc
                \<and> ((if numMipLevels desc = 0 then 1 else numMipLevels desc) \<noteq> 1
                    \<or> type desc = ThreeD))
             \<or> \<not> (if numMipLevels desc = 0 then 1 else numMipLevels desc)
                   \<le> calcNumMipLevels (width desc) (height desc)
     then desc\<lparr>numMipLevels := (if numMipLevels desc = 0 then 1 else numMipLevels desc)\<rparr>
     else desc\<lparr>numMipLevels := (if numMipLevels desc = 0 then 1 else numMipLevels desc),
               usage := (if usage desc = 0 then Sampled else usage desc)\<rparr>)"
proof (cases "numMipLevels desc = 0")
  case m0: True
  show ?thesis
  proof (cases "usage desc = 0")
    case True
    with m0 assms show ?thesis
      by (auto simp add: create_def Let_def IGL_VERIFY_def
          split: if_splits prod.splits dest: create_allocate_desc)
  next
    case False
    with m0 assms show ?thesis
      by (auto simp add: create_def Let_def IGL_VERIFY_def
          split: if_splits prod.splits dest: create_allocate_desc)
  qed
next
  case m1: False
  show ?thesis
  proof (cases "usage desc = 0")
    case True
    with m1 assms show ?thesis
      by (auto simp add: create_def Let_def IGL_VERIFY_def
          split: if_splits prod.splits dest: create_allocate_desc)
  next
    case False
    with m1 assms show ?thesis
      by (auto simp add: create_def Let_def IGL_VERIFY_def
          split: if_splits prod.splits dest: create_allocate_desc)
  qed
qed

text \<open>
  C3 (as amended). Zero mip levels and an empty usage bit-set do not make create fail:
  the result of create is the result it gives for the descriptor with the mip-level
  count 0 replaced by 1 and the empty usage replaced by \<open>Sampled\<close>. The getters report
  what lines 41-44 and 63-66 have stored when create returns: \<open>getNumMipLevels\<close>
  reports the corrected count for every descriptor of a supported type (the check of
  lines 35-39 comes first) and the original count otherwise; \<open>getUsage\<close> reports the
  corrected usage for every descriptor that passes the checks of lines 35-61 (type,
  multisampling, mip-level range), whether or not the device then creates the image,
  and the original usage otherwise. After a successful create the image has the
  corrected number of mip levels.
\<close>

theorem create_corrects_zero_mips_and_empty_usage:
  assumes "create ctx dev t desc = (r, w, dev', t')"
  shows "r = fst (create ctx dev t
                   (desc\<lparr>numMipLevels := (if numMipLevels desc = 0 then 1 else numMipLevels desc),
                         usage := (if usage desc = 0 then Sampled else usage desc)\<rparr>))
       \<and> getNumMipLevels t' =
           (if type desc = TwoD \<or> type desc = Cube \<or> type desc = ThreeD
            then (if numMipLevels desc = 0 then 1 else numMipLevels desc)
            else numMipLevels desc)
       \<and> getUsage t' =
           (if (type desc = TwoD \<or> type desc = Cube \<or> type desc = ThreeD)
               \<and> \<not> (1 < numSamples desc
                      \<and> ((if numMipLevels desc = 0 then 1 else numMipLevels desc) \<noteq> 1
                          \<or> type desc = ThreeD))
               \<and> (if numMipLevels desc = 0 then 1 else numMipLevels desc)
                   \<le> calcNumMipLevels (width desc) (height desc)
            then (if usage desc = 0 then Sampled else usage desc)
            else usage desc)
       \<and> (isOk r \<longrightarrow>
            (\<exists>tex. texture' t' = Some tex
                  \<and> imageLevels (getVulkanImage tex)
                      = word_of_nat (if numMipLevels desc = 0 then 1 else numMipLevels desc)))"
proof (intro conjI impI)
  show "r = fst (create ctx dev t
                   (desc\<lparr>numMipLevels := (if numMipLevels desc = 0 then 1 else numMipLevels desc),
                         usage := (if usage desc = 0 then Sampled else usage desc)\<rparr>))"
    by (rule create_result_normalized [OF assms])
next
  show "getNumMipLevels t' =
           (if type desc = TwoD \<or> type desc = Cube \<or> type desc = ThreeD
            then (if numMipLevels desc = 0 then 1 else numMipLevels desc)
            else numMipLevels desc)"
    unfolding getNumMipLevels_def create_desc [OF assms] by simp
next
  show "getUsage t' =
           (if (type desc = TwoD \<or> type desc = Cube \<or> type desc = ThreeD)
               \<and> \<not> (1 < numSamples desc
                      \<and> ((if numMipLevels desc = 0 then 1 else numMipLevels desc) \<noteq> 1
                          \<or> type desc = ThreeD))
               \<and> (if numMipLevels desc = 0 then 1 else numMipLevels desc)
                   \<le> calcNumMipLevels (width desc) (height desc)
            then (if usage desc = 0 then Sampled else usage desc)
            else usage desc)"
    unfolding getUsage_def create_desc [OF assms] by simp
next
  assume ok: "isOk r"
  show "\<exists>tex. texture' t' = Some tex
                  \<and> imageLevels (getVulkanImage tex)
                      = word_of_nat (if numMipLevels desc = 0 then 1 else numMipLevels desc)"
    by (rule create_ok_imageLevels [OF assms ok])
qed

lemma create_sample_zero_mips_empty_usage:
  "\<exists>dev' t'. create sampleContext emptyDevice newTexture (xorPatternDesc\<lparr>numMipLevels := 0, usage := 0\<rparr>)
     = (Result_Ok, [''The number of mip levels specified must be greater than 0'',
                    ''Texture usage flags are not set''], dev', t')"
  by (simp add: create_def create_allocate_def create_switch_def createImage_def
      createImageView_def Let_def IGL_VERIFY_def IGL_ASSERT_MSG_def isOk_def Result_Ok_def
      xorPatternDesc_def sampleContext_def emptyDevice_def newTexture_def
      calcNumMipLevels_256 create_usageFlags_def Sampled_def Storage_def Attachment_def
      VK_IMAGE_USAGE_TRANSFER_DST_BIT_def VK_IMAGE_USAGE_SAMPLED_BIT_def VK_IMAGE_USAGE_TRANSFER_SRC_BIT_def)

text \<open>
  The theorem at the sample descriptor with \<open>numMipLevels = 0\<close> and empty usage: create
  succeeds, logs the two warnings, and the getters report 1 and \<open>Sampled\<close>.
\<close>

theorem create_corrects_zero_mips_and_empty_usage_witness:
  "\<exists>dev' t'. create sampleContext emptyDevice newTexture (xorPatternDesc\<lparr>numMipLevels := 0, usage := 0\<rparr>)
     = (Result_Ok, [''The number of mip levels specified must be greater than 0'',
                    ''Texture usage flags are not set''], dev', t')
     \<and> isOk Result_Ok \<and> getNumMipLevels t' = 1 \<and> getUsage t' = Sampled
     \<and> (\<exists>tex. texture' t' = Some tex \<and> imageLevels (getVulkanImage tex) = 1)"
proof -
  from create_sample_zero_mips_empty_usage obtain dev' t' where
    e: "create sampleContext emptyDevice newTexture (xorPatternDesc\<lparr>numMipLevels := 0, usage := 0\<rparr>)
     = (Result_Ok, [''The number of mip levels specified must be greater than 0'',
                    ''Texture usage flags are not set''], dev', t')"
    by blast
  have ok: "isOk Result_Ok" by (simp add: isOk_def Result_Ok_def)
  have f: "numMipLevels (xorPatternDesc\<lparr>numMipLevels := 0, usage := 0\<rparr>) = 0"
    "usage (xorPatternDesc\<lparr>numMipLevels := 0, usage := 0\<rparr>) = 0"
    "type (xorPatternDesc\<lparr>numMipLevels := 0, usage := 0\<rparr>) = TwoD"
    "numSamples (xorPatternDesc\<lparr>numMipLevels := 0, usage := 0\<rparr>) = 1"
    "calcNumMipLevels (width (xorPatternDesc\<lparr>numMipLevels := 0, usage := 0\<rparr>))
       (height (xorPatternDesc\<lparr>numMipLevels := 0, usage := 0\<rparr>)) = 9"
    by (simp_all add: xorPatternDesc_def calcNumMipLevels_256)
  note th = create_corrects_zero_mips_and_empty_usage [OF e, THEN conjunct2]
  from th [THEN conjunct1] have a: "getNumMipLevels t' = 1"
    unfolding f by simp
  from th [THEN conjunct2, THEN conjunct1] have b: "getUsage t' = Sampled"
    unfolding f by simp
  from th [THEN conjunct2, THEN conjunct2] ok
  have c: "\<exists>tex. texture' t' = Some tex \<and> imageLevels (getVulkanImage tex) = 1"
    unfolding f by simp
  from e ok a b c show ?thesis by blast
qed

text \<open>
  C3 as stated fails: the getters do not report the corrected values after every
  create. The sample descriptor with empty usage and 10 mip levels (a 256 x 256 image
  has at most 9) is rejected at line 57, before line 63 corrects the usage, and
  \<open>getUsage\<close> reports the empty set. The sample descriptor with an unsupported type
  and 0 mip levels is rejected at line 38, before line 41 corrects the count, and
  \<open>getNumMipLevels\<close> reports 0.
\<close>

theorem create_corrects_counterexample:
  "usage (xorPatternDesc\<lparr>usage := 0, numMipLevels := 10\<rparr>) = 0
   \<and> code (fst (create sampleContext emptyDevice newTexture
                   (xorPatternDesc\<lparr>usage := 0, numMipLevels := 10\<rparr>))) = ArgumentOutOfRange
   \<and> getUsage (snd (snd (snd (create sampleContext emptyDevice newTexture
                   (xorPatternDesc\<lparr>usage := 0, numMipLevels := 10\<rparr>))))) = 0
   \<and> numMipLevels (xorPatternDesc\<lparr>type := OtherType, numMipLevels := 0\<rparr>) = 0
   \<and> code (fst (create sampleContext emptyDevice newTexture
                   (xorPatternDesc\<lparr>type := OtherType, numMipLevels := 0\<rparr>))) = Unimplemented
   \<and> getNumMipLevels (snd (snd (snd (create sampleContext emptyDevice newTexture
                   (xorPatternDesc\<lparr>type := OtherType, numMipLevels := 0\<rparr>))))) = 0"
  by (simp add: create_def Let_def IGL_VERIFY_def mkResult_def getUsage_def getNumMipLevels_def
      xorPatternDesc_def sampleContext_def emptyDevice_def newTexture_def
      calcNumMipLevels_256)

lemma create_allocate_granted:
  assumes "\<forall>img. isOk (deviceImageResult ctx img) \<and> \<not> deviceImageNull ctx img"
    and "\<forall>v. \<not> deviceViewNull ctx v"
    and "create_switch ctx (desc' t) = Some sw"
  shows "fst (create_allocate ctx dev t f) = Result_Ok"
proof -
  obtain vt la it cf sm where sw: "sw = (vt, la, it, cf, sm)" by (cases sw) auto
  show ?thesis
    using assms sw
    by (simp add: create_allocate_def createImage_def createImageView_def Let_def IGL_VERIFY_def)
qed

lemma create_ok_samples:
  assumes "create ctx dev t desc = (r, w, dev', t')" and ok: "isOk r"
  shows "\<exists>tex. texture' t' = Some tex \<and> images dev' = images dev @ [getVulkanImage tex]
           \<and> imageSamples (getVulkanImage tex)
               = (if type desc = TwoD then getVulkanSampleCountFlags ctx (numSamples desc)
                  else VK_SAMPLE_COUNT_1_BIT)"
proof -
  from create_ok [OF assms] obtain w3 where
    al: "create_allocate ctx dev
            (t\<lparr>desc' := desc\<lparr>numMipLevels := (if numMipLevels desc = 0 then 1 else numMipLevels desc),
                               usage := (if usage desc = 0 then Sampled else usage desc)\<rparr>\<rparr>)
            (if isDepthOrStencilFormat ctx (format desc)
             then getClosestDepthStencilFormat ctx (format desc)
             else textureFormatToVkFormat ctx (format desc)) = (r, w3, dev', t')"
    and ty: "type desc = TwoD \<or> type desc = Cube \<or> type desc = ThreeD"
    by blast
  from create_allocate_ok [OF al ok] obtain vt la it cf sm img v where
    sw: "create_switch ctx (desc' (t\<lparr>desc' := desc\<lparr>numMipLevels := (if numMipLevels desc = 0 then 1 else numMipLevels desc),
                               usage := (if usage desc = 0 then Sampled else usage desc)\<rparr>\<rparr>)) = Some (vt, la, it, cf, sm)"
    and t': "t' = t\<lparr>desc' := desc\<lparr>numMipLevels := (if numMipLevels desc = 0 then 1 else numMipLevels desc),
                               usage := (if usage desc = 0 then Sampled else usage desc)\<rparr>,
             texture' := Some \<lparr>getVulkanImage = img, getVulkanImageView = v\<rparr>\<rparr>"
    and sm: "imageSamples img = sm" and im: "images dev' = images dev @ [img]"
    by blast
  from sw ty have "sm = (if type desc = TwoD then getVulkanSampleCountFlags ctx (numSamples desc)
                  else VK_SAMPLE_COUNT_1_BIT)"
    by (auto simp add: create_switch_def Let_def split: TextureType.splits)
  with t' sm im show ?thesis by simp
qed

lemma create_cube_accepted:
  assumes "type desc = Cube" and "numMipLevels desc = 1"
    and "1 \<le> calcNumMipLevels (width desc) (height desc)"
    and "\<forall>img. isOk (deviceImageResult ctx img) \<and> \<not> deviceImageNull ctx img"
    and "\<forall>v. \<not> deviceViewNull ctx v"
  shows "fst (create ctx dev t desc) = Result_Ok"
proof -
  have sw: "create_switch ctx d = Some (VK_IMAGE_VIEW_TYPE_CUBE, word_of_nat (numLayers d) * 6,
       VK_IMAGE_TYPE_2D, VK_IMAGE_CREATE_CUBE_COMPATIBLE_BIT, VK_SAMPLE_COUNT_1_BIT)"
    if "type d = Cube" for d
    using that by (simp add: create_switch_def Let_def)
  show ?thesis
  proof (cases "usage desc = 0")
    case True
    with assms(1-3) show ?thesis
      using create_allocate_granted [OF assms(4,5) sw, of "t\<lparr>desc' := desc\<lparr>usage := Sampled\<rparr>\<rparr>" dev]
      by (simp add: create_def Let_def IGL_VERIFY_def case_prod_beta)
  next
    case False
    with assms(1-3) show ?thesis
      using create_allocate_granted [OF assms(4,5) sw, of "t\<lparr>desc' := desc\<rparr>" dev]
      by (simp add: create_def Let_def IGL_VERIFY_def case_prod_beta)
  qed
qed

text \<open>
  C9. An image that create allocates for a \<open>Cube\<close> or \<open>ThreeD\<close> descriptor has sample
  count \<open>VK_SAMPLE_COUNT_1_BIT\<close> whatever \<open>numSamples\<close> is; only for \<open>TwoD\<close> is the
  requested count translated and used. A \<open>Cube\<close> descriptor with one mip level is
  accepted for every \<open>numSamples\<close>, also above 1, when the mip-level bound holds and
  the device grants the image and the view.
\<close>

theorem create_cube_3d_single_sampled:
  assumes "create ctx dev t desc = (r, w, dev', t')"
  shows "(isOk r \<and> (type desc = Cube \<or> type desc = ThreeD) \<longrightarrow>
            (\<exists>tex. texture' t' = Some tex \<and> images dev' = images dev @ [getVulkanImage tex]
                \<and> imageSamples (getVulkanImage tex) = VK_SAMPLE_COUNT_1_BIT))
       \<and> (isOk r \<and> type desc = TwoD \<longrightarrow>
            (\<exists>tex. texture' t' = Some tex \<and> images dev' = images dev @ [getVulkanImage tex]
                \<and> imageSamples (getVulkanImage tex)
                    = getVulkanSampleCountFlags ctx (numSamples desc)))
       \<and> (type desc = Cube \<and> numMipLevels desc = 1
            \<and> 1 \<le> calcNumMipLevels (width desc) (height desc)
            \<and> (\<forall>img. isOk (deviceImageResult ctx img) \<and> \<not> deviceImageNull ctx img)
            \<and> (\<forall>v. \<not> deviceViewNull ctx v) \<longrightarrow> isOk r)"
proof (intro conjI impI)
  assume a: "isOk r \<and> (type desc = Cube \<or> type desc = ThreeD)"
  then have "type desc \<noteq> TwoD" by auto
  with create_ok_samples [OF assms] a
  show "\<exists>tex. texture' t' = Some tex \<and> images dev' = images dev @ [getVulkanImage tex]
                \<and> imageSamples (getVulkanImage tex) = VK_SAMPLE_COUNT_1_BIT"
    by simp
next
  assume a: "isOk r \<and> type desc = TwoD"
  with create_ok_samples [OF assms]
  show "\<exists>tex. texture' t' = Some tex \<and> images dev' = images dev @ [getVulkanImage tex]
                \<and> imageSamples (getVulkanImage tex)
                    = getVulkanSampleCountFlags ctx (numSamples desc)"
    by simp
next
  assume a: "type desc = Cube \<and> numMipLevels desc = 1
            \<and> 1 \<le> calcNumMipLevels (width desc) (height desc)
            \<and> (\<forall>img. isOk (deviceImageResult ctx img) \<and> \<not> deviceImageNull ctx img)
            \<and> (\<forall>v. \<not> deviceViewNull ctx v)"
  then have "fst (create ctx dev t desc) = Result_Ok"
    by (intro create_cube_accepted) simp_all
  with assms show "isOk r" by (simp add: isOk_def Result_Ok_def)
qed

lemma create_sample_cube_multisampled:
  "\<exists>w dev' t'. create sampleContext emptyDevice newTexture (xorPatternDesc\<lparr>type := Cube, numSamples := 4\<rparr>)
     = (Result_Ok, w, dev', t')"
  by (simp add: create_def create_allocate_def create_switch_def createImage_def
      createImageView_def Let_def IGL_VERIFY_def isOk_def Result_Ok_def
      xorPatternDesc_def sampleContext_def emptyDevice_def newTexture_def
      calcNumMipLevels_256)

text \<open>
  The theorem at a four-sample \<open>Cube\<close> version of the sample descriptor: create succeeds
  and the image is single-sampled.
\<close>

theorem create_cube_3d_single_sampled_witness:
  "\<exists>w dev' t'. create sampleContext emptyDevice newTexture (xorPatternDesc\<lparr>type := Cube, numSamples := 4\<rparr>)
     = (Result_Ok, w, dev', t')
     \<and> isOk Result_Ok \<and> type (xorPatternDesc\<lparr>type := Cube, numSamples := 4\<rparr>) = Cube
     \<and> numSamples (xorPatternDesc\<lparr>type := Cube, numSamples := 4\<rparr>) = 4
     \<and> (\<exists>tex. texture' t' = Some tex \<and> images dev' = images emptyDevice @ [getVulkanImage tex]
                \<and> imageSamples (getVulkanImage tex) = VK_SAMPLE_COUNT_1_BIT)"
proof -
  from create_sample_cube_multisampled obtain w dev' t' where
    e: "create sampleContext emptyDevice newTexture (xorPatternDesc\<lparr>type := Cube, numSamples := 4\<rparr>)
     = (Result_Ok, w, dev', t')"
    by blast
  have ok: "isOk Result_Ok" by (simp add: isOk_def Result_Ok_def)
  have ty: "type (xorPatternDesc\<lparr>type := Cube, numSamples := 4\<rparr>) = Cube"
    and ns: "numSamples (xorPatternDesc\<lparr>type := Cube, numSamples := 4\<rparr>) = 4"
    by simp_all
  from create_cube_3d_single_sampled [OF e, THEN conjunct1] ok ty
  have "\<exists>tex. texture' t' = Some tex \<and> images dev' = images emptyDevice @ [getVulkanImage tex]
                \<and> imageSamples (getVulkanImage tex) = VK_SAMPLE_COUNT_1_BIT"
    by blast
  with e ok ty ns show ?thesis by blast
qed

section \<open>Properties of Texture::upload and Texture::uploadCube\<close>

lemma create_xorPattern:
  "create sampleContext emptyDevice newTexture xorPatternDesc
   = (Result_Ok, [], xorPatternDevice, xorPatternTexture)"
  by (simp add: create_def create_allocate_def create_switch_def createImage_def
      createImageView_def Let_def IGL_VERIFY_def IGL_ASSERT_MSG_def isOk_def Result_Ok_def
      xorPatternDesc_def sampleContext_def emptyDevice_def newTexture_def
      calcNumMipLevels_256 create_usageFlags_def Sampled_def Storage_def Attachment_def
      VK_IMAGE_USAGE_TRANSFER_DST_BIT_def VK_IMAGE_USAGE_SAMPLED_BIT_def
      VK_IMAGE_USAGE_TRANSFER_SRC_BIT_def VK_IMAGE_USAGE_DEPTH_STENCIL_ATTACHMENT_BIT_def
      VK_IMAGE_ASPECT_COLOR_BIT_def VK_SAMPLE_COUNT_1_BIT_def VK_REMAINING_MIP_LEVELS_def
      xorPatternDevice_def xorPatternTexture_def xorPatternImage_def xorPatternView_def
      BGRA_UN8_def)

lemma validateRange_fullRange: "validateRange xorPatternTexture fullRange = Result_Ok"
  by (simp add: validateRange_def xorPatternTexture_def xorPatternDesc_def fullRange_def Let_def)

lemma isOk_Result_Ok: "isOk Result_Ok"
  by (simp add: isOk_def Result_Ok_def)

text \<open>
  C4. For every range and every row stride, upload with a null source pointer returns
  success and leaves the device as it was: no staged copy, no other change.
\<close>

theorem upload_null_data:
  "upload ctx mem dev t rng 0 bytesPerRow = Some (Result_Ok, dev)"
  by (simp add: upload_def)

text \<open>
  The theorem at the sample texture, its full range and a stride of 1024.
\<close>

theorem upload_null_data_witness:
  "upload sampleContext (\<lambda>a. 0) xorPatternDevice xorPatternTexture fullRange 0 1024
   = Some (Result_Ok, xorPatternDevice)"
  by (rule upload_null_data)

text \<open>
  C1 (as amended). When the range escapes the image's dimensions at the addressed mip
  level, or its layer span escapes the layer count, upload leaves the device as it was
  for every source pointer and every row stride; it returns \<open>RangeOutOfBounds\<close> when
  the pointer is not null and success when it is null, since line 167 tests the
  pointer before line 170 validates the range.
\<close>

theorem upload_range_escapes:
  assumes "max 1 (width (desc' t) div 2 ^ range_mipLevel rng) < range_x rng + range_width rng
         \<or> max 1 (height (desc' t) div 2 ^ range_mipLevel rng) < range_y rng + range_height rng
         \<or> max 1 (depth (desc' t) div 2 ^ range_mipLevel rng) < range_z rng + range_depth rng
         \<or> (if type (desc' t) = Cube then 6 * numLayers (desc' t) else numLayers (desc' t))
             < range_layer rng + range_numLayers rng"
  shows "upload ctx mem dev t rng data bytesPerRow
         = Some (if data = 0 then Result_Ok else mkResult RangeOutOfBounds [], dev)"
proof -
  from assms have "validateRange t rng = mkResult RangeOutOfBounds []"
    by (auto simp add: validateRange_def Let_def)
  then show ?thesis
    by (simp add: upload_def Let_def isOk_def mkResult_def)
qed

text \<open>
  The theorem at the sample texture with a range 512 wide and a pointer that is not
  null.
\<close>

theorem upload_range_escapes_witness:
  "256 < range_x (fullRange\<lparr>range_width := 512\<rparr>) + range_width (fullRange\<lparr>range_width := 512\<rparr>)
   \<and> upload sampleContext (\<lambda>a. 0) xorPatternDevice xorPatternTexture
        (fullRange\<lparr>range_width := 512\<rparr>) 4096 0
      = Some (mkResult RangeOutOfBounds [], xorPatternDevice)"
  using upload_range_escapes [of xorPatternTexture "fullRange\<lparr>range_width := 512\<rparr>"
          sampleContext "\<lambda>a. 0" xorPatternDevice 4096 0]
  by (simp add: xorPatternTexture_def xorPatternDesc_def fullRange_def)

text \<open>
  C1 as stated fails for a null pointer: the range 512 wide escapes the 256 wide sample
  texture and is rejected by the range check, yet upload with a null pointer returns
  success.
\<close>

theorem upload_range_escapes_null_counterexample:
  "256 < range_x (fullRange\<lparr>range_width := 512\<rparr>) + range_width (fullRange\<lparr>range_width := 512\<rparr>)
   \<and> code (validateRange xorPatternTexture (fullRange\<lparr>range_width := 512\<rparr>)) = RangeOutOfBounds
   \<and> upload sampleContext (\<lambda>a. 0) xorPatternDevice xorPatternTexture
        (fullRange\<lparr>range_width := 512\<rparr>) 0 0
      = Some (Result_Ok, xorPatternDevice)
   \<and> code Result_Ok = Ok"
  by (simp add: upload_def validateRange_def Let_def mkResult_def Result_Ok_def
      xorPatternTexture_def xorPatternDesc_def fullRange_def)

lemma create_cube:
  "create sampleContext emptyDevice newTexture cubeDesc = (Result_Ok, [], cubeDevice, cubeTexture)"
  by (simp add: create_def create_allocate_def create_switch_def createImage_def
      createImageView_def Let_def IGL_VERIFY_def IGL_ASSERT_MSG_def isOk_def Result_Ok_def
      xorPatternDesc_def sampleContext_def emptyDevice_def newTexture_def cubeDesc_def
      calcNumMipLevels_256 create_usageFlags_def Sampled_def Storage_def Attachment_def
      VK_IMAGE_USAGE_TRANSFER_DST_BIT_def VK_IMAGE_USAGE_SAMPLED_BIT_def
      VK_IMAGE_USAGE_TRANSFER_SRC_BIT_def VK_IMAGE_USAGE_DEPTH_STENCIL_ATTACHMENT_BIT_def
      VK_IMAGE_ASPECT_COLOR_BIT_def VK_SAMPLE_COUNT_1_BIT_def VK_REMAINING_MIP_LEVELS_def
      VK_IMAGE_CREATE_CUBE_COMPATIBLE_BIT_def
      cubeDevice_def cubeTexture_def cubeImage_def cubeView_def BGRA_UN8_def)

lemma validateRange_cube: "validateRange cubeTexture fullRange = Result_Ok"
  by (simp add: validateRange_def cubeTexture_def cubeDesc_def xorPatternDesc_def fullRange_def Let_def)


text \<open>
  C7. For every call of uploadCube whose range validates on a created texture, the one
  2D copy that is staged has as destination layer the ordinal of the face: \<open>PosX\<close> 0,
  \<open>NegX\<close> 1, \<open>PosY\<close> 2, \<open>NegY\<close> 3, \<open>PosZ\<close> 4, \<open>NegZ\<close> 5.
\<close>

theorem uploadCube_layer_is_face_ordinal:
  assumes "isOk (validateRange t rng)" and "texture' t = Some tex"
  shows "uploadCube dev t rng face data bytesPerRow
         = Some (Result_Ok,
                 dev\<lparr>transfers := transfers dev @
                   [ImageData2D (vkImage' (getVulkanImage tex))
                      (VkRect2D (word_of_nat (range_x rng)) (word_of_nat (range_y rng))
                         (word_of_nat (range_width rng)) (word_of_nat (range_height rng)))
                      (word_of_nat (range_mipLevel rng)) (word_of_nat (range_numMipLevels rng))
                      (case face of PosX \<Rightarrow> 0 | NegX \<Rightarrow> 1 | PosY \<Rightarrow> 2
                                  | NegY \<Rightarrow> 3 | PosZ \<Rightarrow> 4 | NegZ \<Rightarrow> 5)
                      (getVkFormat t) (CallerData data)]\<rparr>)"
  using assms
  by (cases face) (simp_all add: uploadCube_def Let_def imageData2D_def ivkGetRect2D_def)

text \<open>
  The theorem at the cube made from the sample descriptor: face \<open>NegZ\<close> goes to layer 5.
\<close>

theorem uploadCube_layer_is_face_ordinal_witness:
  "isOk (validateRange cubeTexture fullRange)
   \<and> uploadCube cubeDevice cubeTexture fullRange NegZ 4096 0
     = Some (Result_Ok,
             cubeDevice\<lparr>transfers :=
               [ImageData2D 1 (VkRect2D 0 0 256 256) 0 1 5 BGRA_UN8 (CallerData 4096)]\<rparr>)"
proof -
  have v: "isOk (validateRange cubeTexture fullRange)"
    by (simp add: validateRange_cube isOk_Result_Ok)
  have tx: "texture' cubeTexture = Some \<lparr>getVulkanImage = cubeImage, getVulkanImageView = cubeView\<rparr>"
    by (simp add: cubeTexture_def)
  from uploadCube_layer_is_face_ordinal [OF v tx, of cubeDevice NegZ 4096 0] v
  show ?thesis
    by (simp add: getVkFormat_def cubeTexture_def cubeImage_def cubeDevice_def fullRange_def)
qed



section \<open>Properties of Texture::getVkImageViewForFramebuffer\<close>

lemma create_ok_texture:
  assumes "create ctx dev t desc = (r, w, dev', t')" and ok: "isOk r"
  shows "\<exists>tex. texture' t' = Some tex
           \<and> viewAspect (getVulkanImageView tex) = getImageAspectFlags (getVulkanImage tex)"
proof -
  from create_ok [OF assms] obtain w3 where
    al: "create_allocate ctx dev
            (t\<lparr>desc' := desc\<lparr>numMipLevels := (if numMipLevels desc = 0 then 1 else numMipLevels desc),
                               usage := (if usage desc = 0 then Sampled else usage desc)\<rparr>\<rparr>)
            (if isDepthOrStencilFormat ctx (format desc)
             then getClosestDepthStencilFormat ctx (format desc)
             else textureFormatToVkFormat ctx (format desc)) = (r, w3, dev', t')"
    by blast
  from create_allocate_ok [OF al ok] show ?thesis
    by (auto simp add: getImageAspectFlags_def)
qed

lemma resize_length: "length (resize xs n) = n"
  by (simp add: resize_def)

lemma resize_nth: "m < length xs \<Longrightarrow> m < n \<Longrightarrow> resize xs n ! m = xs ! m"
  by (simp add: resize_def nth_append)

lemma getVkImageViewForFramebuffer_hit:
  assumes "unat level < length (imageViewForFramebuffer' t)"
    and "imageViewForFramebuffer' t ! unat level = Some v"
  shows "getVkImageViewForFramebuffer ctx dev t level = Some (vkImageView' v, dev, t)"
  using assms by (simp add: getVkImageViewForFramebuffer_def)

lemma getVkImageViewForFramebuffer_miss:
  assumes tex: "texture' t = Some tex"
    and lv: "level \<noteq> - 1"
    and dv: "\<forall>v. \<not> deviceViewNull ctx v"
    and miss: "length (imageViewForFramebuffer' t) \<le> unat level
               \<or> imageViewForFramebuffer' t ! unat level = None"
  shows "\<exists>v. getVkImageViewForFramebuffer ctx dev t level
           = Some (vkImageView' v, dev\<lparr>imageViews := imageViews dev @ [v]\<rparr>,
                   t\<lparr>imageViewForFramebuffer' :=
                        (if length (imageViewForFramebuffer' t) \<le> unat level
                         then resize (imageViewForFramebuffer' t) (Suc (unat level))
                         else imageViewForFramebuffer' t)[unat level := Some v]\<rparr>)
         \<and> viewBaseLevel v = level \<and> viewNumLevels v = 1
         \<and> viewBaseLayer v = 0 \<and> viewNumLayers v = 1 \<and> viewType v = VK_IMAGE_VIEW_TYPE_2D
         \<and> viewAspect v = getImageAspectFlags (getVulkanImage tex)
         \<and> viewImage v = vkImage' (getVulkanImage tex)"
proof -
  have su: "unat (level + 1) = Suc (unat level)"
  proof -
    have "1 + level \<noteq> 0"
    proof
      assume "1 + level = 0"
      then have "level = - 1" by (simp add: add_eq_0_iff)
      with lv show False by simp
    qed
    from unatSuc [OF this] show ?thesis by (simp add: add.commute)
  qed
  obtain vo d where cv: "createImageView ctx dev (getVulkanImage tex) VK_IMAGE_VIEW_TYPE_2D
       (textureFormatToVkFormat ctx (format (desc' t))) (getImageAspectFlags (getVulkanImage tex))
       level 1 0 1 [] = (vo, d)"
    by (cases "createImageView ctx dev (getVulkanImage tex) VK_IMAGE_VIEW_TYPE_2D
       (textureFormatToVkFormat ctx (format (desc' t))) (getImageAspectFlags (getVulkanImage tex))
       level 1 0 1 []") auto
  from cv dv obtain v where vo: "vo = Some v"
    by (cases vo) (auto simp add: createImageView_def Let_def split: if_splits)
  note f = createImageView_Some [OF cv [unfolded vo]]
  show ?thesis
  proof (cases "length (imageViewForFramebuffer' t) \<le> unat level")
    case True
    then show ?thesis
      using tex cv vo f su
      by (intro exI [of _ v]) (simp add: getVkImageViewForFramebuffer_def Let_def resize_length)
  next
    case False
    with miss have "imageViewForFramebuffer' t ! unat level = None" by simp
    with False show ?thesis
      using tex cv vo f
      by (intro exI [of _ v]) (simp add: getVkImageViewForFramebuffer_def Let_def)
  qed
qed

text \<open>
  The view cache for every level but \<open>0xFFFFFFFF\<close> (C8 without its failing input). On
  a texture made by a successful create, with a device that returns the view, a call
  for a level that has no cached view creates exactly one view, of one mip level (the
  requested one) and one layer, with the aspect of the primary view, and stores it at
  the index of the level; the cache does not shrink and the entries of all other levels
  stay as they were; every later call for the level returns the same handle and changes
  nothing.
\<close>

theorem getVkImageViewForFramebuffer_caches:
  assumes "create ctx dev0 t0 desc = (r, w, dev1, t1)" and "isOk r"
    and "texture' t = texture' t1"
    and "level \<noteq> - 1"
    and "\<forall>v. \<not> deviceViewNull ctx v"
    and "length (imageViewForFramebuffer' t) \<le> unat level
         \<or> imageViewForFramebuffer' t ! unat level = None"
  shows "\<exists>tex v t'.
           texture' t = Some tex
         \<and> getVkImageViewForFramebuffer ctx dev t level
             = Some (vkImageView' v, dev\<lparr>imageViews := imageViews dev @ [v]\<rparr>, t')
         \<and> viewBaseLevel v = level \<and> viewNumLevels v = 1
         \<and> viewBaseLayer v = 0 \<and> viewNumLayers v = 1
         \<and> viewAspect v = viewAspect (getVulkanImageView tex)
         \<and> unat level < length (imageViewForFramebuffer' t')
         \<and> imageViewForFramebuffer' t' ! unat level = Some v
         \<and> length (imageViewForFramebuffer' t) \<le> length (imageViewForFramebuffer' t')
         \<and> (\<forall>m<length (imageViewForFramebuffer' t).
               m \<noteq> unat level \<longrightarrow>
               imageViewForFramebuffer' t' ! m = imageViewForFramebuffer' t ! m)
         \<and> texture' t' = texture' t \<and> desc' t' = desc' t
         \<and> (\<forall>d. getVkImageViewForFramebuffer ctx d t' level = Some (vkImageView' v, d, t'))"
proof -
  from create_ok_texture [OF assms(1,2)] assms(3) obtain tex where
    tex: "texture' t = Some tex"
    and asp: "viewAspect (getVulkanImageView tex) = getImageAspectFlags (getVulkanImage tex)"
    by auto
  define cache where
    "cache = (if length (imageViewForFramebuffer' t) \<le> unat level
              then resize (imageViewForFramebuffer' t) (Suc (unat level))
              else imageViewForFramebuffer' t)"
  from getVkImageViewForFramebuffer_miss [OF tex assms(4,5,6), of dev] obtain v where
    call: "getVkImageViewForFramebuffer ctx dev t level
           = Some (vkImageView' v, dev\<lparr>imageViews := imageViews dev @ [v]\<rparr>,
                   t\<lparr>imageViewForFramebuffer' := cache[unat level := Some v]\<rparr>)"
    and v: "viewBaseLevel v = level" "viewNumLevels v = 1" "viewBaseLayer v = 0"
      "viewNumLayers v = 1" "viewAspect v = getImageAspectFlags (getVulkanImage tex)"
    unfolding cache_def by blast
  define t' where "t' = t\<lparr>imageViewForFramebuffer' := cache[unat level := Some v]\<rparr>"
  have len: "unat level < length cache" "length (imageViewForFramebuffer' t) \<le> length cache"
    by (simp_all add: cache_def resize_length)
  have keep: "cache ! m = imageViewForFramebuffer' t ! m"
    if "m < length (imageViewForFramebuffer' t)" for m
    using that by (simp add: cache_def resize_nth)
  have c1: "unat level < length (imageViewForFramebuffer' t')"
    and c2: "imageViewForFramebuffer' t' ! unat level = Some v"
    and c3: "length (imageViewForFramebuffer' t) \<le> length (imageViewForFramebuffer' t')"
    using len by (simp_all add: t'_def)
  have c4: "\<forall>m<length (imageViewForFramebuffer' t).
               m \<noteq> unat level \<longrightarrow>
               imageViewForFramebuffer' t' ! m = imageViewForFramebuffer' t ! m"
    using keep by (simp add: t'_def)
  have c5: "texture' t' = texture' t" "desc' t' = desc' t"
    by (simp_all add: t'_def)
  have c6: "\<forall>d. getVkImageViewForFramebuffer ctx d t' level = Some (vkImageView' v, d, t')"
    using getVkImageViewForFramebuffer_hit [OF c1 c2] by blast
  from tex call v asp c1 c2 c3 c4 c5 c6 show ?thesis
    unfolding t'_def [symmetric] by (intro exI [of _ tex] exI [of _ v] exI [of _ t']) simp
qed

lemma getVkImageViewForFramebuffer_level0:
  "getVkImageViewForFramebuffer sampleContext xorPatternDevice xorPatternTexture 0
   = Some (2, cachedDevice, cachedTexture)"
  by (simp add: getVkImageViewForFramebuffer_def createImageView_def getImageAspectFlags_def
      resize_def Let_def sampleContext_def xorPatternDevice_def xorPatternTexture_def
      xorPatternImage_def xorPatternDesc_def cachedDevice_def cachedTexture_def level0View_def
      VK_IMAGE_USAGE_DEPTH_STENCIL_ATTACHMENT_BIT_def VK_IMAGE_ASPECT_COLOR_BIT_def)

text \<open>
  C8 at level \<open>0xFFFFFFFF\<close>. Line 321 computes \<^verbatim>\<open>level + 1\<close> in \<^verbatim>\<open>uint32_t\<close>, which is
  0: the vector is resized to no entries, so the view cached for level 0 is dropped, and
  line 326 indexes the empty vector, for which there is no result.
\<close>

theorem getVkImageViewForFramebuffer_level_wraps:
  "imageViewForFramebuffer' cachedTexture = [Some level0View]
   \<and> unat ((0xFFFFFFFF :: 32 word) + 1) = 0
   \<and> resize (imageViewForFramebuffer' cachedTexture) (unat ((0xFFFFFFFF :: 32 word) + 1)) = []
   \<and> getVkImageViewForFramebuffer sampleContext cachedDevice cachedTexture 0xFFFFFFFF = None"
  by (simp add: getVkImageViewForFramebuffer_def createImageView_def resize_def Let_def
      cachedTexture_def xorPatternTexture_def sampleContext_def)

text \<open>
  The theorem at the sample texture with a view cached for level 0 and a request for
  level 2.
\<close>

theorem getVkImageViewForFramebuffer_caches_witness:
  "isOk Result_Ok \<and> (2 :: 32 word) \<noteq> - 1
   \<and> (\<exists>v t'. getVkImageViewForFramebuffer sampleContext cachedDevice cachedTexture 2
               = Some (vkImageView' v, cachedDevice\<lparr>imageViews := imageViews cachedDevice @ [v]\<rparr>, t')
          \<and> viewBaseLevel v = 2 \<and> viewNumLevels v = 1 \<and> viewBaseLayer v = 0
          \<and> viewNumLayers v = 1 \<and> viewAspect v = viewAspect xorPatternView
          \<and> imageViewForFramebuffer' t' ! 2 = Some v
          \<and> imageViewForFramebuffer' t' ! 0 = Some level0View
          \<and> getVkImageViewForFramebuffer sampleContext cachedDevice t' 2
              = Some (vkImageView' v, cachedDevice, t'))"
proof -
  have tx: "texture' cachedTexture = texture' xorPatternTexture"
    by (simp add: cachedTexture_def)
  have lv: "(2 :: 32 word) \<noteq> - 1" by simp
  have dv: "\<forall>v. \<not> deviceViewNull sampleContext v" by (simp add: sampleContext_def)
  have c: "imageViewForFramebuffer' cachedTexture = [Some level0View]"
    by (simp add: cachedTexture_def)
  have miss: "length (imageViewForFramebuffer' cachedTexture) \<le> unat (2 :: 32 word)
         \<or> imageViewForFramebuffer' cachedTexture ! unat (2 :: 32 word) = None"
    by (simp add: c)
  from getVkImageViewForFramebuffer_caches
         [OF create_xorPattern isOk_Result_Ok tx lv dv miss, of cachedDevice]
  obtain tex v t' where
    f: "texture' cachedTexture = Some tex"
      "getVkImageViewForFramebuffer sampleContext cachedDevice cachedTexture 2
             = Some (vkImageView' v, cachedDevice\<lparr>imageViews := imageViews cachedDevice @ [v]\<rparr>, t')"
      "viewBaseLevel v = 2" "viewNumLevels v = 1" "viewBaseLayer v = 0" "viewNumLayers v = 1"
      "viewAspect v = viewAspect (getVulkanImageView tex)"
      "imageViewForFramebuffer' t' ! unat (2 :: 32 word) = Some v"
      "\<forall>m<length (imageViewForFramebuffer' cachedTexture).
               m \<noteq> unat (2 :: 32 word) \<longrightarrow>
               imageViewForFramebuffer' t' ! m = imageViewForFramebuffer' cachedTexture ! m"
      "\<forall>d. getVkImageViewForFramebuffer sampleContext d t' 2 = Some (vkImageView' v, d, t')"
    by blast
  from f(1) have "getVulkanImageView tex = xorPatternView"
    by (simp add: cachedTexture_def xorPatternTexture_def) auto
  with f(7) have a: "viewAspect v = viewAspect xorPatternView" by simp
  from f(8) have n2: "imageViewForFramebuffer' t' ! 2 = Some v" by simp
  from f(9) c have n0: "imageViewForFramebuffer' t' ! 0 = Some level0View" by simp
  from f(10) have again: "getVkImageViewForFramebuffer sampleContext cachedDevice t' 2
              = Some (vkImageView' v, cachedDevice, t')" by blast
  from f(2-6) a n2 n0 again lv isOk_Result_Ok show ?thesis by blast
qed

section \<open>The loops of Texture::upload\<close>

lemma upload_mipLoop_sum:
  "upload_mipLoop ctx t rng i b =
   b + (\<Sum>m = i..<range_numMipLevels rng.
          getTextureBytesPerSlice ctx (range_width rng) (range_height rng) (range_depth rng)
            (format (desc' t)) m)"
proof (induction ctx t rng i b rule: upload_mipLoop.induct)
  case (1 ctx t rng i b)
  show ?case
  proof (cases "i < range_numMipLevels rng")
    case True
    with "1.IH" show ?thesis
      by (subst upload_mipLoop.simps) (simp add: sum.atLeast_Suc_lessThan add.assoc)
  next
    case False
    then show ?thesis
      by (subst upload_mipLoop.simps) simp
  qed
qed

lemma upload_byteIncrement_sum:
  assumes "2 \<le> range_numLayers rng"
  shows "upload_byteIncrement ctx t rng =
         (\<Sum>m<max 1 (range_numMipLevels rng).
            getTextureBytesPerSlice ctx (range_width rng) (range_height rng) (range_depth rng)
              (format (desc' t)) m)"
proof (cases "1 < range_numMipLevels rng")
  case True
  then have "{..<max 1 (range_numMipLevels rng)} = insert 0 {1..<range_numMipLevels rng}"
    by auto
  with True assms show ?thesis
    by (simp add: upload_byteIncrement_def Let_def upload_mipLoop_sum)
next
  case False
  then have "max 1 (range_numMipLevels rng) = 1" by simp
  with False assms show ?thesis
    by (simp add: upload_byteIncrement_def Let_def)
qed

lemma length_concat_rows:
  "length (concat (map (\<lambda>h. map (f h) [0..<rw]) [a..<b])) = (b - a) * rw"
  by (induction b) (auto simp add: Suc_diff_le)

lemma upload_repack_from:
  assumes "h \<le> rows" and "length lin = rows * rw"
  shows "upload_repack mem data bpr rw rows h lin =
         take (h * rw) lin
         @ concat (map (\<lambda>h. map (\<lambda>k. mem (data + h * bpr + k)) [0..<rw]) [h..<rows])"
  using assms
proof (induction mem data bpr rw rows h lin rule: upload_repack.induct)
  case (1 mem data bpr rw rows h lin)
  show ?case
  proof (cases "h < rows")
    case True
    let ?lin = "memcpy lin (h * rw) mem (data + h * bpr) rw"
    have hl: "h * rw + rw \<le> length lin"
    proof -
      from True have "Suc h \<le> rows" by simp
      then have "Suc h * rw \<le> rows * rw" by (rule mult_le_mono1)
      with "1.prems" show ?thesis by (simp add: add.commute)
    qed
    then have len: "length ?lin = rows * rw"
      using "1.prems" by (simp add: memcpy_def)
    have tk: "take (Suc h * rw) ?lin = take (h * rw) lin @ map (\<lambda>k. mem (data + h * bpr + k)) [0..<rw]"
      using hl by (simp add: memcpy_def add.commute)
    from True have "upload_repack mem data bpr rw rows h lin
                    = upload_repack mem data bpr rw rows (h + 1) ?lin"
      by (subst upload_repack.simps) simp
    also have "\<dots> = take ((h + 1) * rw) ?lin
         @ concat (map (\<lambda>h. map (\<lambda>k. mem (data + h * bpr + k)) [0..<rw]) [h + 1..<rows])"
      using True len by (intro "1.IH") simp_all
    also have "\<dots> = take (h * rw) lin
         @ concat (map (\<lambda>h. map (\<lambda>k. mem (data + h * bpr + k)) [0..<rw]) [h..<rows])"
      using True tk by (simp add: upt_conv_Cons)
    finally show ?thesis .
  next
    case False
    with "1.prems" have "h = rows" by simp
    with "1.prems" show ?thesis
      by (subst upload_repack.simps) simp
  qed
qed

lemma upload_repack_full:
  assumes "length lin = rows * rw"
  shows "upload_repack mem data bpr rw rows 0 lin = tightRows mem data bpr rw rows"
  using upload_repack_from [of 0 rows lin rw mem data bpr] assms
  by (simp add: tightRows_def)

lemma length_tightRows: "length (tightRows mem data bpr rw rows) = rows * rw"
  using length_concat_rows [of "\<lambda>h k. mem (data + h * bpr + k)" rw 0 rows]
  by (simp add: tightRows_def)

lemma upload_stage_copy:
  "upload_stage dev t tex rng i src
   = dev\<lparr>transfers := transfers dev @ [upload_copy t tex rng i src]\<rparr>"
  by (simp add: upload_stage_def upload_copy_def imageData2D_def imageData3D_def ivkGetRect2D_def)

lemma upload_layerLoop_transfers:
  assumes "upload_isAligned ctx t bpr \<or> length lin = height (desc' t) * upload_imageRowWidth ctx t"
  shows "upload_layerLoop ctx mem t tex rng bpr inc n i data lin dev
         = dev\<lparr>transfers := transfers dev @
             map (\<lambda>k. upload_copy t tex rng k (upload_source ctx mem t bpr (data + (k - i) * inc)))
               [i..<n]\<rparr>"
  using assms
proof (induction "n - i" arbitrary: i data lin dev)
  case 0
  then have "\<not> i < n" by simp
  then show ?case
    by (subst upload_layerLoop.simps) simp
next
  case (Suc d)
  then have lt: "i < n" and d: "d = n - (i + 1)" by simp_all
  define lin' where "lin' = (if upload_isAligned ctx t bpr then lin
              else upload_repack mem data bpr (upload_imageRowWidth ctx t)
                     (height (desc' t)) 0 lin)"
  define src where "src = (if upload_isAligned ctx t bpr then CallerData data
                         else LinearData lin')"
  have lin'_eq: "\<not> upload_isAligned ctx t bpr \<Longrightarrow>
      lin' = tightRows mem data bpr (upload_imageRowWidth ctx t) (height (desc' t))"
    using Suc.prems by (simp add: lin'_def upload_repack_full)
  then have src_eq: "src = upload_source ctx mem t bpr data"
    by (simp add: src_def upload_source_def)
  have inv: "upload_isAligned ctx t bpr
             \<or> length lin' = height (desc' t) * upload_imageRowWidth ctx t"
  proof (cases "upload_isAligned ctx t bpr")
    case True
    then show ?thesis by simp
  next
    case False
    with lin'_eq have "length lin' = height (desc' t) * upload_imageRowWidth ctx t"
      by (simp add: length_tightRows)
    then show ?thesis by simp
  qed
  have step: "upload_layerLoop ctx mem t tex rng bpr inc n i data lin dev
        = upload_layerLoop ctx mem t tex rng bpr inc n (i + 1) (data + inc) lin'
            (upload_stage dev t tex rng i src)"
    using lt by (subst upload_layerLoop.simps) (simp add: Let_def lin'_def src_def)
  have off: "data + inc + (k - Suc i) * inc = data + (k - i) * inc" if "Suc i \<le> k" for k
  proof -
    from that have "k - i = Suc (k - Suc i)" by simp
    then show ?thesis by simp
  qed
  have m: "map (\<lambda>k. upload_copy t tex rng k
                  (upload_source ctx mem t bpr (data + inc + (k - Suc i) * inc))) [Suc i..<n]
         = map (\<lambda>k. upload_copy t tex rng k
                  (upload_source ctx mem t bpr (data + (k - i) * inc))) [Suc i..<n]"
    by (rule map_cong) (simp_all add: off)
  have up: "[i..<n] = i # [i + 1..<n]"
    using lt by (simp add: upt_conv_Cons)
  show ?case
    unfolding step
    by (subst Suc.hyps(1) [OF d inv]) (simp add: upload_stage_copy src_eq m up)
qed

lemma upload_valid:
  assumes "data \<noteq> 0" and "isOk (validateRange t rng)" and "texture' t = Some tex"
    and "max (range_numLayers rng) 1 \<le> INT_MAX"
    and "range_numMipLevels rng \<le> INT_MAX"
    and "upload_isAligned ctx t bytesPerRow \<or> height (desc' t) < 2 ^ 32"
  shows "upload ctx mem dev t rng data bytesPerRow
         = Some (Result_Ok,
                 dev\<lparr>transfers := transfers dev @
                   map (\<lambda>i. upload_copy t tex rng i
                              (upload_source ctx mem t bytesPerRow
                                 (data + i * upload_byteIncrement ctx t rng)))
                     [0..<max (range_numLayers rng) 1]\<rparr>)"
proof -
  have inv: "upload_isAligned ctx t bytesPerRow
       \<or> length (if \<not> upload_isAligned ctx t bytesPerRow
                 then replicate (upload_imageRowWidth ctx t * height (desc' t)) (0 :: 8 word)
                 else []) = height (desc' t) * upload_imageRowWidth ctx t"
    by (simp add: mult.commute)
  from assms have g: "\<not> (INT_MAX < max (range_numLayers rng) 1
                       \<or> (1 < range_numMipLevels rng \<and> INT_MAX < range_numMipLevels rng)
                       \<or> (\<not> upload_isAligned ctx t bytesPerRow \<and> 2 ^ 32 \<le> height (desc' t)))"
    by auto
  show ?thesis
    using assms(1-3) g upload_layerLoop_transfers [OF inv]
    by (simp add: upload_def Let_def)
qed




text \<open>
  C5. For every valid upload of \<open>n \<ge> 2\<close> layers on a created texture (non-null
  pointer, counts within the range of the \<^verbatim>\<open>int\<close> counters), upload stages exactly
  \<open>n\<close> copies, in the order of the layers \<open>0, 1, ..., n - 1\<close> of the range; copy \<open>i\<close>
  goes to layer \<^verbatim>\<open>(uint32_t)(range.layer + i)\<close> on the 2D path, and its source bytes
  start at \<open>data + i * S\<close>: the pointer itself on the aligned path, the rows read from it
  on the other. \<open>S\<close> is the sum of the slice sizes of the mip levels of the range's span,
  levels \<open>0\<close> to \<open>numMipLevels - 1\<close>; a span of 0 counts as the one level 0, which
  line 194 always includes.
\<close>

theorem upload_layers_in_order:
  assumes "data \<noteq> 0" and "isOk (validateRange t rng)" and "texture' t = Some tex"
    and "2 \<le> range_numLayers rng" and "range_numLayers rng \<le> INT_MAX"
    and "range_numMipLevels rng \<le> INT_MAX"
    and "upload_isAligned ctx t bytesPerRow \<or> height (desc' t) < 2 ^ 32"
  shows "let S = (\<Sum>m<max 1 (range_numMipLevels rng).
                    getTextureBytesPerSlice ctx (range_width rng) (range_height rng)
                      (range_depth rng) (format (desc' t)) m);
             src = (\<lambda>i. if upload_isAligned ctx t bytesPerRow then CallerData (data + i * S)
                        else LinearData (tightRows mem (data + i * S) bytesPerRow
                                           (upload_imageRowWidth ctx t) (height (desc' t))))
         in upload ctx mem dev t rng data bytesPerRow
            = Some (Result_Ok,
                    dev\<lparr>transfers := transfers dev @
                      map (\<lambda>i. if type' (getVulkanImage tex) = VK_IMAGE_TYPE_3D
                                then ImageData3D (vkImage' (getVulkanImage tex))
                                       (VkOffset3D (word_of_nat (range_x rng))
                                          (word_of_nat (range_y rng)) (word_of_nat (range_z rng)))
                                       (VkExtent3D (word_of_nat (range_width rng))
                                          (word_of_nat (range_height rng))
                                          (word_of_nat (range_depth rng)))
                                       (getVkFormat t) (src i)
                                else ImageData2D (vkImage' (getVulkanImage tex))
                                       (VkRect2D (word_of_nat (range_x rng))
                                          (word_of_nat (range_y rng))
                                          (word_of_nat (range_width rng))
                                          (word_of_nat (range_height rng)))
                                       (word_of_nat (range_mipLevel rng))
                                       (word_of_nat (range_numMipLevels rng))
                                       (word_of_nat (range_layer rng + i))
                                       (getVkFormat t) (src i))
                        [0..<range_numLayers rng]\<rparr>)"
proof -
  define S where "S = (\<Sum>m<max 1 (range_numMipLevels rng).
                    getTextureBytesPerSlice ctx (range_width rng) (range_height rng)
                      (range_depth rng) (format (desc' t)) m)"
  from assms(4) have mx: "max (range_numLayers rng) 1 = range_numLayers rng" by simp
  from assms(5) mx have le: "max (range_numLayers rng) 1 \<le> INT_MAX" by simp
  have inc: "upload_byteIncrement ctx t rng = S"
    unfolding S_def by (rule upload_byteIncrement_sum [OF assms(4)])
  have e: "upload ctx mem dev t rng data bytesPerRow
         = Some (Result_Ok,
                 dev\<lparr>transfers := transfers dev @
                   map (\<lambda>i. upload_copy t tex rng i
                              (upload_source ctx mem t bytesPerRow (data + i * S)))
                     [0..<range_numLayers rng]\<rparr>)"
    using upload_valid [OF assms(1-3) le assms(6,7), of mem dev] unfolding mx inc .
  show ?thesis
    unfolding Let_def S_def [symmetric] e
    by (simp add: upload_copy_def upload_source_def)
qed

lemma calcNumMipLevels_1_2: "calcNumMipLevels (Suc 0) 2 = 2"
  by code_simp

lemma create_tiny:
  "create sampleContext emptyDevice newTexture tinyDesc = (Result_Ok, [], tinyDevice, tinyTexture)"
  by (simp add: create_def create_allocate_def create_switch_def createImage_def
      createImageView_def Let_def IGL_VERIFY_def IGL_ASSERT_MSG_def isOk_def Result_Ok_def
      xorPatternDesc_def sampleContext_def emptyDevice_def newTexture_def tinyDesc_def
      calcNumMipLevels_1_2 create_usageFlags_def Sampled_def Storage_def Attachment_def
      VK_IMAGE_USAGE_TRANSFER_DST_BIT_def VK_IMAGE_USAGE_SAMPLED_BIT_def
      VK_IMAGE_USAGE_TRANSFER_SRC_BIT_def VK_IMAGE_USAGE_DEPTH_STENCIL_ATTACHMENT_BIT_def
      VK_IMAGE_ASPECT_COLOR_BIT_def VK_SAMPLE_COUNT_1_BIT_def VK_REMAINING_MIP_LEVELS_def
      tinyDevice_def tinyTexture_def tinyImage_def tinyView_def BGRA_UN8_def)

text \<open>
  The theorem at the cube made from the sample descriptor: two layers, each 256 x 256
  x 4 = 262144 bytes.
\<close>

theorem upload_layers_in_order_witness:
  "isOk (validateRange cubeTexture (fullRange\<lparr>range_numLayers := 2\<rparr>))
   \<and> 2 \<le> range_numLayers (fullRange\<lparr>range_numLayers := 2\<rparr>)
   \<and> upload sampleContext (\<lambda>a. 0) cubeDevice cubeTexture
        (fullRange\<lparr>range_numLayers := 2\<rparr>) 4096 0
      = Some (Result_Ok,
              cubeDevice\<lparr>transfers :=
                [ImageData2D 1 (VkRect2D 0 0 256 256) 0 1 0 BGRA_UN8 (CallerData 4096),
                 ImageData2D 1 (VkRect2D 0 0 256 256) 0 1 1 BGRA_UN8 (CallerData 266240)]\<rparr>)"
proof -
  have v: "isOk (validateRange cubeTexture (fullRange\<lparr>range_numLayers := 2\<rparr>))"
    by (simp add: validateRange_def cubeTexture_def cubeDesc_def xorPatternDesc_def
        fullRange_def Let_def isOk_Result_Ok)
  have tx: "texture' cubeTexture = Some \<lparr>getVulkanImage = cubeImage, getVulkanImageView = cubeView\<rparr>"
    by (simp add: cubeTexture_def)
  have al: "upload_isAligned sampleContext cubeTexture 0 \<or> height (desc' cubeTexture) < 2 ^ 32"
    by (simp add: upload_isAligned_def)
  have n: "2 \<le> range_numLayers (fullRange\<lparr>range_numLayers := 2\<rparr>)"
    "range_numLayers (fullRange\<lparr>range_numLayers := 2\<rparr>) \<le> INT_MAX"
    "range_numMipLevels (fullRange\<lparr>range_numLayers := 2\<rparr>) \<le> INT_MAX"
    by (simp_all add: fullRange_def INT_MAX_def)
  have d: "(4096 :: nat) \<noteq> 0" by simp
  have l: "[0..<2] = [0, Suc 0]" by (simp add: upt_rec)
  from upload_layers_in_order [OF d v tx n al, of "\<lambda>a. 0" cubeDevice] v n(1)
  show ?thesis
    by (simp add: Let_def upload_isAligned_def sampleContext_def cubeTexture_def cubeImage_def
        cubeDevice_def cubeDesc_def xorPatternDesc_def fullRange_def getVkFormat_def l)
qed














end
